theory Spec2Isabelle
  imports Main
begin

section \<open>Strings as the route handlers use them\<close>

text \<open>
  JavaScript strings are modelled as \<^typ>\<open>string\<close>. A request field or a column that is
  missing, \<open>null\<close> or the empty string is falsy in the source; for text fields of a request
  all three are modelled by the empty string, for nullable columns by \<^typ>\<open>string option\<close>.
  A character is a code unit below 256; \<open>trim\<close> removes the white space among them: the six
  ASCII white space characters and the no-break space.
\<close>

definition is_space :: "char \<Rightarrow> bool" where
  "is_space c = (c \<in> set [CHR '' '', CHR 0x09, CHR 0x0A, CHR 0x0B, CHR 0x0C, CHR 0x0D, CHR 0xA0])"

definition trim :: "string \<Rightarrow> string" where
  "trim s = rev (dropWhile is_space (rev (dropWhile is_space s)))"

text \<open>\<open>s.split(sep)\<close> for a one-character separator: the empty string gives one empty piece.\<close>

fun split_on :: "char \<Rightarrow> string \<Rightarrow> string list" where
  "split_on sep [] = [[]]"
| "split_on sep (c # cs) =
     (if c = sep then [] # split_on sep cs
      else (case split_on sep cs of [] \<Rightarrow> [[c]] | w # ws \<Rightarrow> (c # w) # ws))"

text \<open>\<open>xs.join(sep)\<close>.\<close>

fun join_with :: "string \<Rightarrow> string list \<Rightarrow> string" where
  "join_with sep [] = []"
| "join_with sep [x] = x"
| "join_with sep (x # y # ys) = x @ sep @ join_with sep (y # ys)"

text \<open>
  A string that \<open>trim\<close> leaves alone, and a link as \<open>parse_links\<close> below produces it:
  non-empty, trimmed and free of commas. Both are used in the statements only.
\<close>

definition clean :: "string \<Rightarrow> bool" where
  "clean s = (s = [] \<or> (\<not> is_space (hd s) \<and> \<not> is_space (last s)))"

definition link_ok :: "string \<Rightarrow> bool" where
  "link_ok l = (l \<noteq> [] \<and> clean l \<and> CHR '','' \<notin> set l)"

section \<open>The session record and the store\<close>

text \<open>
  One row of a schedule table, with the columns the handlers read or write. Nullable columns
  are options. The store maps a table name to its rows; a table that is absent makes every
  query on it return an error.
\<close>

record session =
  id_col :: int
  date :: string
  time :: string
  subject_name :: "string option"
  session_type :: "string option"
  mentor_id :: "int option"
  swapped_mentor_id :: "int option"
  teams_meeting_link :: "string option"
  email_sent :: "bool option"
  whatsapp_sent :: "bool option"
  initial_session_material :: "string option"
  session_material :: "string option"

type_synonym db = "string \<Rightarrow> session list option"

text \<open>\<open>from(t).select(..).eq(..)\<close>: the rows of the table that pass the filter, or an error.\<close>

definition select_rows :: "db \<Rightarrow> string \<Rightarrow> (session \<Rightarrow> bool) \<Rightarrow> session list option" where
  "select_rows store t p = map_option (filter p) (store t)"

text \<open>\<open>.single()\<close>: an error unless exactly one row came back.\<close>

definition single :: "session list option \<Rightarrow> session option" where
  "single res = (case res of Some [row] \<Rightarrow> Some row | _ \<Rightarrow> None)"

text \<open>\<open>from(t).update(patch).eq(..)\<close>, when the store accepts the write.\<close>

definition update_rows :: "db \<Rightarrow> string \<Rightarrow> (session \<Rightarrow> bool) \<Rightarrow> (session \<Rightarrow> session) \<Rightarrow> db" where
  "update_rows store t p patch =
     (case store t of None \<Rightarrow> store
      | Some rows \<Rightarrow> store(t \<mapsto> map (\<lambda>row. if p row then patch row else row) rows))"

section \<open>Session material (src/app/api/mentor/session-material/route.ts)\<close>

text \<open>
  \<open>(column || '').split(',').map(link => link.trim()).filter(link => link.length > 0)\<close>
\<close>

definition parse_links :: "string option \<Rightarrow> string list" where
  "parse_links col =
     filter (\<lambda>link. length link > 0)
       (map trim (split_on CHR '','' (case col of None \<Rightarrow> [] | Some s \<Rightarrow> s)))"

text \<open>
  POST, lines 55 to 61: \<open>allLinks\<close> starts as a copy of the stored links; every new link is
  trimmed and pushed when it is non-empty and not yet included.
\<close>

fun post_merge :: "string list \<Rightarrow> string list \<Rightarrow> string list" where
  "post_merge allLinks [] = allLinks"
| "post_merge allLinks (newLink # rest) =
     (let trimmedLink = trim newLink
      in if trimmedLink \<noteq> [] \<and> trimmedLink \<notin> set allLinks
         then post_merge (allLinks @ [trimmedLink]) rest
         else post_merge allLinks rest)"

text \<open>
  GET, lines 149 to 154: \<open>allLinks\<close> starts as a copy of the initial links; every session link
  not yet included is pushed.
\<close>

fun get_merge :: "string list \<Rightarrow> string list \<Rightarrow> string list" where
  "get_merge allLinks [] = allLinks"
| "get_merge allLinks (link # rest) =
     (if link \<notin> set allLinks then get_merge (allLinks @ [link]) rest
      else get_merge allLinks rest)"

text \<open>
  The specification's \<open>dedupe\<close>: keep the first occurrence of every element, in order.
\<close>

fun dedupe :: "'a list \<Rightarrow> 'a list" where
  "dedupe [] = []"
| "dedupe (x # xs) = x # dedupe (filter (\<lambda>y. y \<noteq> x) xs)"

text \<open>
  PUT, lines 171 to 255. \<open>write_ok\<close> tells whether the store accepts the update; the
  response comes with the store as the request leaves it.
\<close>

datatype put_response =
    Put_Missing_Fields
  | Put_Session_Not_Found
  | Put_Link_Not_Found
  | Put_Update_Failed
  | Put_Deleted string

definition PUT_material ::
  "bool \<Rightarrow> db \<Rightarrow> string \<Rightarrow> string \<Rightarrow> string \<Rightarrow> string \<Rightarrow> put_response \<times> db" where
  "PUT_material write_ok store tableName date' time' linkToDelete =
     (if tableName = [] \<or> date' = [] \<or> time' = [] \<or> linkToDelete = []
      then (Put_Missing_Fields, store)
      else
        (case single (select_rows store tableName (\<lambda>row. date row = date' \<and> time row = time')) of
           None \<Rightarrow> (Put_Session_Not_Found, store)
         | Some session \<Rightarrow>
            (let initialLinks = parse_links (initial_session_material session);
                 sessionLinks = parse_links (session_material session)
             in if linkToDelete \<in> set initialLinks then
                  (let updatedInitialLinks = filter (\<lambda>link. link \<noteq> linkToDelete) initialLinks
                   in if write_ok
                      then (Put_Deleted ''initial_session_material'',
                            update_rows store tableName (\<lambda>row. date row = date' \<and> time row = time')
                              (\<lambda>row. row\<lparr>initial_session_material :=
                                        Some (join_with '', '' updatedInitialLinks)\<rparr>))
                      else (Put_Update_Failed, store))
                else if linkToDelete \<in> set sessionLinks then
                  (let updatedSessionLinks = filter (\<lambda>link. link \<noteq> linkToDelete) sessionLinks
                   in if write_ok
                      then (Put_Deleted ''session_material'',
                            update_rows store tableName (\<lambda>row. date row = date' \<and> time row = time')
                              (\<lambda>row. row\<lparr>session_material :=
                                        Some (join_with '', '' updatedSessionLinks)\<rparr>))
                      else (Put_Update_Failed, store))
                else (Put_Link_Not_Found, store))))"

text \<open>A table with one session whose two material columns share the link \<open>b\<close>.\<close>

definition material_row :: session where
  "material_row =
     \<lparr>id_col = 1, date = ''2024-01-10'', time = ''10:00'', subject_name = Some ''Graphs'',
      session_type = None, mentor_id = Some 7, swapped_mentor_id = None,
      teams_meeting_link = None, email_sent = Some False, whatsapp_sent = Some False,
      initial_session_material = Some ''a, b'', session_material = Some ''b, c''\<rparr>"

definition material_store :: db where
  "material_store = Map.empty(''basic6_0_schedule'' \<mapsto> [material_row])"

section \<open>Table names and cohorts\<close>

text \<open>
  The character classes \<open>[a-zA-Z]\<close> and \<open>\d\<close> of the regular expressions, and
  \<open>toUpperCase\<close>, \<open>toLowerCase\<close> on ASCII letters.
\<close>

definition is_alpha :: "char \<Rightarrow> bool" where
  "is_alpha c = (let n = (of_char c :: nat) in (65 \<le> n \<and> n \<le> 90) \<or> (97 \<le> n \<and> n \<le> 122))"

definition is_digit :: "char \<Rightarrow> bool" where
  "is_digit c = (let n = (of_char c :: nat) in 48 \<le> n \<and> n \<le> 57)"

definition to_upper :: "char \<Rightarrow> char" where
  "to_upper c = (let n = (of_char c :: nat) in if 97 \<le> n \<and> n \<le> 122 then char_of (n - 32) else c)"

definition to_lower :: "char \<Rightarrow> char" where
  "to_lower c = (let n = (of_char c :: nat) in if 65 \<le> n \<and> n \<le> 90 then char_of (n + 32) else c)"

text \<open>\<open>s.charAt(0).toUpperCase() + s.slice(1)\<close>\<close>

fun capitalize :: "string \<Rightarrow> string" where
  "capitalize [] = []"
| "capitalize (c # cs) = to_upper c # cs"

text \<open>\<open>s.replace(pat, '')\<close> with a string pattern: the first occurrence only.\<close>

fun remove_first :: "string \<Rightarrow> string \<Rightarrow> string" where
  "remove_first pat [] = []"
| "remove_first pat (c # cs) =
     (if take (length pat) (c # cs) = pat then drop (length pat) (c # cs)
      else c # remove_first pat cs)"

text \<open>
  \<open>name.match(/^([a-zA-Z]+)(\d+)_(\d+)$/)\<close>. Letters, digits and the underscore are
  disjoint classes, so the only way to match is the longest run of letters, then the longest
  run of digits, an underscore, and digits to the end; the three groups are returned.
\<close>

definition match_cohort :: "string \<Rightarrow> (string \<times> string \<times> string) option" where
  "match_cohort name =
     (let typeRaw = takeWhile is_alpha name;
          major = takeWhile is_digit (dropWhile is_alpha name)
      in if typeRaw = [] \<or> major = [] then None
         else (case dropWhile is_digit (dropWhile is_alpha name) of
                 [] \<Rightarrow> None
               | c # minor \<Rightarrow>
                   if c = CHR ''_'' \<and> minor \<noteq> [] \<and> list_all is_digit minor
                   then Some (typeRaw, major, minor) else None))"

text \<open>\<open>name.match(/^([a-zA-Z]+)(\d+)_(\d+)_schedule$/)\<close>, in the same way.\<close>

definition match_schedule_table :: "string \<Rightarrow> (string \<times> string \<times> string) option" where
  "match_schedule_table name =
     (let typeRaw = takeWhile is_alpha name;
          major = takeWhile is_digit (dropWhile is_alpha name)
      in if typeRaw = [] \<or> major = [] then None
         else (case dropWhile is_digit (dropWhile is_alpha name) of
                 [] \<Rightarrow> None
               | c # rest \<Rightarrow>
                   if c = CHR ''_'' \<and> takeWhile is_digit rest \<noteq> []
                      \<and> dropWhile is_digit rest = ''_schedule''
                   then Some (typeRaw, major, takeWhile is_digit rest) else None))"

text \<open>\<open>parseCohortFromTableName\<close>, session-update/route.ts lines 401 to 412.\<close>

definition parseCohortFromTableName :: "string \<Rightarrow> (string \<times> string) option" where
  "parseCohortFromTableName tableName =
     (case match_cohort (remove_first ''_schedule'' tableName) of
        None \<Rightarrow> None
      | Some (typeRaw, major, minor) \<Rightarrow> Some (capitalize typeRaw, major @ ''.'' @ minor))"

section \<open>The conflict check of the swap handler (POST /api/session/swap-mentor)\<close>

text \<open>
  Mentor and session ids are numbers. A value of the request is truthy when it is present and
  not zero.
\<close>

definition truthy_id :: "int option \<Rightarrow> bool" where
  "truthy_id v = (case v of None \<Rightarrow> False | Some n \<Rightarrow> n \<noteq> 0)"

text \<open>Lines 73 to 79: the test on one row at the session's date and time.\<close>

definition is_busy :: "int \<Rightarrow> session \<Rightarrow> bool" where
  "is_busy swappedMentorId conflict =
     (let isOriginalMentor = (mentor_id conflict = Some swappedMentorId);
          isSwappedMentor = (swapped_mentor_id conflict = Some swappedMentorId);
          isSwappedAway = (isOriginalMentor \<and> swapped_mentor_id conflict \<noteq> None)
      in (isOriginalMentor \<and> \<not> isSwappedAway) \<or> isSwappedMentor)"

text \<open>
  Lines 67 to 102: the loop over the rows of one table; the row being edited is skipped, the
  first busy row ends the request.
\<close>

fun scan_conflicts :: "string \<Rightarrow> string \<Rightarrow> int \<Rightarrow> int \<Rightarrow> session list \<Rightarrow> session option" where
  "scan_conflicts checkTableName tableName sessionId swappedMentorId [] = None"
| "scan_conflicts checkTableName tableName sessionId swappedMentorId (conflict # rest) =
     (if checkTableName = tableName \<and> id_col conflict = sessionId
      then scan_conflicts checkTableName tableName sessionId swappedMentorId rest
      else if is_busy swappedMentorId conflict then Some conflict
      else scan_conflicts checkTableName tableName sessionId swappedMentorId rest)"

text \<open>
  Lines 50 to 104: the loop over the schedule tables; a table whose query fails is skipped.
  The result is the table and the row of the first conflict.
\<close>

fun scan_tables ::
  "db \<Rightarrow> string \<Rightarrow> int \<Rightarrow> int \<Rightarrow> string \<Rightarrow> string \<Rightarrow> string list \<Rightarrow> (string \<times> session) option" where
  "scan_tables store tableName sessionId swappedMentorId sessionDate sessionTime [] = None"
| "scan_tables store tableName sessionId swappedMentorId sessionDate sessionTime (checkTableName # rest) =
     (case select_rows store checkTableName
             (\<lambda>row. date row = sessionDate \<and> time row = sessionTime) of
        None \<Rightarrow> scan_tables store tableName sessionId swappedMentorId sessionDate sessionTime rest
      | Some conflicts \<Rightarrow>
          (case scan_conflicts checkTableName tableName sessionId swappedMentorId conflicts of
             Some conflict \<Rightarrow> Some (checkTableName, conflict)
           | None \<Rightarrow>
               scan_tables store tableName sessionId swappedMentorId sessionDate sessionTime rest))"

text \<open>Lines 81 to 84: the batch name shown in the conflict message.\<close>

definition batch_name :: "string \<Rightarrow> string" where
  "batch_name checkTableName =
     (case match_schedule_table checkTableName of
        Some (typeRaw, major, minor) \<Rightarrow> capitalize typeRaw @ '' '' @ major @ ''.'' @ minor
      | None \<Rightarrow> remove_first ''_schedule'' checkTableName)"

text \<open>
  Lines 40 to 106. \<open>tables\<close> is what the registry call \<open>get_schedule_tables\<close> returned
  (\<open>None\<close> for an error); the check runs only for a truthy \<open>swappedMentorId\<close>.
\<close>

definition conflict_check ::
  "db \<Rightarrow> string list option \<Rightarrow> string \<Rightarrow> int \<Rightarrow> session \<Rightarrow> int option \<Rightarrow> (string \<times> session) option" where
  "conflict_check store tables tableName sessionId session swappedMentorId =
     (case swappedMentorId of
        None \<Rightarrow> None
      | Some cand \<Rightarrow>
          if cand = 0 then None
          else (case tables of
                  None \<Rightarrow> None
                | Some ts \<Rightarrow> scan_tables store tableName sessionId cand (date session) (time session) ts))"

text \<open>
  The specification's words for a busy mentor: the row's mentor is the candidate and nobody
  covers the row, or the candidate covers the row.
\<close>

definition busy_spec :: "int \<Rightarrow> session \<Rightarrow> bool" where
  "busy_spec candidate row =
     ((mentor_id row = Some candidate \<and> swapped_mentor_id row = None)
      \<or> swapped_mentor_id row = Some candidate)"

text \<open>
  The specification's words for the detector: some listed schedule table that can be read
  holds a session at the date and time, other than the session being edited, in which the
  candidate is busy.
\<close>

definition detector_spec ::
  "db \<Rightarrow> string list \<Rightarrow> string \<Rightarrow> int \<Rightarrow> string \<Rightarrow> string \<Rightarrow> int \<Rightarrow> bool" where
  "detector_spec store ts tableName sessionId d tm candidate =
     (\<exists>t \<in> set ts.
        case store t of
          None \<Rightarrow> False
        | Some rows \<Rightarrow>
            (\<exists>row \<in> set rows. date row = d \<and> time row = tm
               \<and> \<not> (t = tableName \<and> id_col row = sessionId) \<and> busy_spec candidate row))"

section \<open>The meeting window of the session-update handler\<close>

text \<open>
  Lines 1273 to 1295 (and 1361 to 1380 for a new session). The date is kept as the text the
  handler received; the text after \<open>T\<close>, which is the effective time followed by \<open>:00\<close>,
  is parsed as \<open>new Date\<close> parses the time of an ISO date-time, \<open>HH:mm\<close> or \<open>HH:mm:ss\<close>,
  in the server's time zone, which is taken to have a fixed offset, so that adding minutes
  to the instant adds minutes to the local clock. The date text is taken to be a calendar
  date in ISO form; any other text after \<open>T\<close> counts as an invalid date.
\<close>

definition digit_val :: "char \<Rightarrow> nat option" where
  "digit_val c = (if is_digit c then Some (of_char c - 48) else None)"

definition parse_2digits :: "char \<Rightarrow> char \<Rightarrow> nat option" where
  "parse_2digits a b =
     (case (digit_val a, digit_val b) of (Some x, Some y) \<Rightarrow> Some (10 * x + y) | _ \<Rightarrow> None)"

text \<open>
  Minutes after midnight of a clock text \<open>HH:MM\<close>; \<open>24:00\<close> is the end of the day;
  \<open>None\<close> stands for an invalid date.
\<close>

definition parse_clock :: "string \<Rightarrow> nat option" where
  "parse_clock s =
     (case s of
        [h1, h2, c, m1, m2] \<Rightarrow>
          (if c = CHR '':'' then
             (case (parse_2digits h1 h2, parse_2digits m1 m2) of
                (Some h, Some m) \<Rightarrow>
                  if (h < 24 \<and> m < 60) \<or> (h = 24 \<and> m = 0) then Some (60 * h + m) else None
              | _ \<Rightarrow> None)
           else None)
      | _ \<Rightarrow> None)"

text \<open>
  The time of an ISO date-time, \<open>HH:mm\<close> or \<open>HH:mm:ss\<close>, in minutes after midnight. The
  handler appends \<open>:00\<close> to the effective time, so a time \<open>HH\<close> is read as \<open>HH:00\<close> and a
  time \<open>HH:MM\<close> as \<open>HH:MM:00\<close>.
\<close>

definition parse_time_text :: "string \<Rightarrow> nat option" where
  "parse_time_text s =
     (if length s = 5 then parse_clock s
      else if length s = 8 \<and> s ! 5 = CHR '':'' then
        (case (parse_clock (take 5 s), parse_2digits (s ! 6) (s ! 7)) of
           (Some n, Some sec) \<Rightarrow> if sec < 60 \<and> (n < 1440 \<or> sec = 0) then Some n else None
         | _ \<Rightarrow> None)
      else None)"

definition pad2 :: "nat \<Rightarrow> string" where
  "pad2 n = [''0123456789'' ! ((n div 10) mod 10), ''0123456789'' ! (n mod 10)]"

text \<open>
  \<open>toTimeString().slice(0, 8)\<close> of a moment given in minutes after the midnight that
  starts the day of the date: the clock time of that moment, the day is dropped.
\<close>

definition time_string :: "nat \<Rightarrow> string" where
  "time_string n = pad2 ((n div 60) mod 24) @ '':'' @ pad2 (n mod 60) @ '':00''"

definition effective_date :: "string \<Rightarrow> string" where
  "effective_date d = (if CHR ''T'' \<in> set d then takeWhile (\<lambda>c. c \<noteq> CHR ''T'') d else d)"

definition effective_time :: "string \<Rightarrow> string \<Rightarrow> string" where
  "effective_time newTime sessionTime =
     take 5 (if newTime \<noteq> [] then newTime else if sessionTime \<noteq> [] then sessionTime else ''19:00'')"

definition startDateTime :: "string \<Rightarrow> string \<Rightarrow> string" where
  "startDateTime effectiveDate effectiveTime = effectiveDate @ ''T'' @ effectiveTime @ '':00''"

definition endDateTime :: "string \<Rightarrow> string \<Rightarrow> string" where
  "endDateTime effectiveDate effectiveTime =
     effectiveDate @ ''T'' @
       (case parse_time_text (effectiveTime @ '':00'') of
          None \<Rightarrow> ''Invalid ''
        | Some m \<Rightarrow> time_string (m + 90))"

text \<open>
  Reading a window back: the date text and the minutes after midnight of a
  \<open>YYYY-MM-DDTHH:MM:SS\<close> text, used to compare start and end.
\<close>

definition window_date :: "string \<Rightarrow> string" where
  "window_date dt = takeWhile (\<lambda>c. c \<noteq> CHR ''T'') dt"

definition window_minutes :: "string \<Rightarrow> nat option" where
  "window_minutes dt = parse_clock (take 5 (drop 1 (dropWhile (\<lambda>c. c \<noteq> CHR ''T'') dt)))"

text \<open>
  The swap handler that creates the meeting itself (unnamed/part_001, lines 527 to 530) adds
  \<open>sessionDuration * 60000\<close> milliseconds, with \<open>sessionDuration = 60\<close>, to the instant of
  the start (\<open>getTime()\<close>, in milliseconds).
\<close>

definition swap_sessionDuration :: int where
  "swap_sessionDuration = 60"

definition swap_end_instant :: "int \<Rightarrow> int" where
  "swap_end_instant start = start + swap_sessionDuration * 60000"

section \<open>Notifications of the session-update handler\<close>

text \<open>
  The rows of \<open>Mentor Details\<close>, \<open>onboarding\<close> and \<open>supermentor_details\<close> with the columns
  that decide whether somebody is contacted.
\<close>

record mentor =
  mentor_row_id :: int
  mentor_name :: "string option"
  mentor_email :: "string option"
  mentor_mobile :: "string option"

record student =
  student_name :: "string option"
  student_email :: "string option"
  student_phone :: "string option"

record supermentor =
  supermentor_name :: "string option"
  supermentor_email :: "string option"
  supermentor_phone :: "string option"

text \<open>\<open>formatPhoneForWhatsApp\<close>, session-update/route.ts lines 15 to 29.\<close>

definition formatPhoneForWhatsApp :: "string option \<Rightarrow> string option" where
  "formatPhoneForWhatsApp phone =
     (case phone of
        None \<Rightarrow> None
      | Some p \<Rightarrow>
          if p = [] then None
          else (let digits = filter is_digit p;
                    phoneStr = (if length digits = 10 then ''91'' @ digits else digits)
                in if 10 \<le> length phoneStr \<and> length phoneStr \<le> 15 then Some phoneStr else None))"

definition truthy_str :: "string option \<Rightarrow> bool" where
  "truthy_str v = (case v of None \<Rightarrow> False | Some s \<Rightarrow> s \<noteq> [])"

text \<open>\<open>a || b\<close> on ids.\<close>

definition or_id :: "int option \<Rightarrow> int option \<Rightarrow> int option" where
  "or_id a b = (if truthy_id a then a else b)"

text \<open>
  What a handler does to the world is recorded as a list of events, in the order of the
  calls: the store updates it issues (of \<open>swapped_mentor_id\<close>, of \<open>teams_meeting_link\<close>, of
  the two notification flags), the calls of \<open>deleteTeamsMeeting\<close> and of
  \<open>createTeamsMeeting\<close> (with subject, start, end and attendees), the call of
  \<open>sendUpdateNotifications\<close>, and every email and WhatsApp message it attempts to send,
  whatever the outcome.
\<close>

datatype audience =
    Student | CurrentMentor | OriginalMentor | SwappedMentor | OldSwappedMentor
  | OldMentor | NewMentor | Supermentor

datatype event =
    Mentor_Write "int option"
  | Delete_Meeting string
  | Create_Meeting string string string "string list"
  | Link_Write "string option"
  | Dispatch_Started
  | Email audience string
  | WhatsApp audience string
  | Flags_Reset

datatype send_result = Delivered | Refused | Threw

datatype create_outcome = Create_Threw | Create_Null | Create_Link string

text \<open>
  Everything outside the handlers: the registry of schedule tables, the identity provider,
  the meeting provider, the other tables, the two channels, and whether the store accepts
  each kind of write.
\<close>

record env =
  env_schedule_tables :: "string list option"
  env_mentor_write_ok :: bool
  env_token_ok :: bool
  env_delete_meeting :: "string \<Rightarrow> bool"
  env_create_meeting :: "string \<Rightarrow> string \<Rightarrow> string \<Rightarrow> string list \<Rightarrow> create_outcome"
  env_students :: "string \<Rightarrow> string \<Rightarrow> student list option"
  env_mentor :: "int \<Rightarrow> mentor option"
  env_supermentors :: "supermentor list option"
  env_send_email :: "audience \<Rightarrow> string \<Rightarrow> send_result"
  env_send_whatsapp :: "audience \<Rightarrow> string \<Rightarrow> bool"
  env_link_write_ok :: bool
  env_flags_write_ok :: bool

record notif_result =
  studentsSent :: nat
  mentorSent :: bool
  supermentorsSent :: nat
  whatsapp_students :: nat
  whatsapp_mentor :: bool
  whatsapp_supermentors :: nat
  oldMentorNotified :: bool
  newMentorNotified :: bool
  originalMentorNotified :: bool
  swappedMentorNotified :: bool

definition no_notifications :: notif_result where
  "no_notifications =
     \<lparr>studentsSent = 0, mentorSent = False, supermentorsSent = 0, whatsapp_students = 0,
      whatsapp_mentor = False, whatsapp_supermentors = 0, oldMentorNotified = False,
      newMentorNotified = False, originalMentorNotified = False, swappedMentorNotified = False\<rparr>"

datatype update_type = Reschedule | Mentor_Removed | Mentor_Assigned | Details_Updated

type_synonym notif_state = "notif_result \<times> event list"

text \<open>
  One email inside its \<open>try\<close>: the result is recorded unless the send threw. One WhatsApp
  message: \<open>sendWhatsAppMessage\<close> catches its own errors and returns a boolean.
\<close>

definition email_to ::
  "env \<Rightarrow> audience \<Rightarrow> string \<Rightarrow> (bool \<Rightarrow> notif_result \<Rightarrow> notif_result) \<Rightarrow> notif_state \<Rightarrow> notif_state" where
  "email_to e a addr record st =
     (case env_send_email e a addr of
        Threw \<Rightarrow> (fst st, snd st @ [Email a addr])
      | Delivered \<Rightarrow> (record True (fst st), snd st @ [Email a addr])
      | Refused \<Rightarrow> (record False (fst st), snd st @ [Email a addr]))"

definition whatsapp_to ::
  "env \<Rightarrow> audience \<Rightarrow> string \<Rightarrow> (bool \<Rightarrow> notif_result \<Rightarrow> notif_result) \<Rightarrow> notif_state \<Rightarrow> notif_state" where
  "whatsapp_to e a phone record st =
     (record (env_send_whatsapp e a phone) (fst st), snd st @ [WhatsApp a phone])"

text \<open>Lines 731 to 783: the loop over the students.\<close>

fun notify_students :: "env \<Rightarrow> student list \<Rightarrow> notif_state \<Rightarrow> notif_state" where
  "notify_students e [] st = st"
| "notify_students e (s # rest) st =
     (let st1 = (case student_email s of
                   None \<Rightarrow> st
                 | Some email \<Rightarrow>
                     if email = [] then st
                     else email_to e Student email
                            (\<lambda>success r. if success then r\<lparr>studentsSent := studentsSent r + 1\<rparr> else r) st);
          st2 = (case formatPhoneForWhatsApp (student_phone s) of
                   None \<Rightarrow> st1
                 | Some phone \<Rightarrow>
                     whatsapp_to e Student phone
                       (\<lambda>success r. if success then r\<lparr>whatsapp_students := whatsapp_students r + 1\<rparr> else r) st1)
      in notify_students e rest st2)"

text \<open>Lines 1087 to 1137: the loop over the supermentors.\<close>

fun notify_supermentors :: "env \<Rightarrow> supermentor list \<Rightarrow> notif_state \<Rightarrow> notif_state" where
  "notify_supermentors e [] st = st"
| "notify_supermentors e (s # rest) st =
     (let st1 = (case supermentor_email s of
                   None \<Rightarrow> st
                 | Some email \<Rightarrow>
                     if email = [] then st
                     else email_to e Supermentor email
                            (\<lambda>success r. if success then r\<lparr>supermentorsSent := supermentorsSent r + 1\<rparr> else r) st);
          st2 = (case formatPhoneForWhatsApp (supermentor_phone s) of
                   None \<Rightarrow> st1
                 | Some phone \<Rightarrow>
                     whatsapp_to e Supermentor phone
                       (\<lambda>success r. if success then r\<lparr>whatsapp_supermentors := whatsapp_supermentors r + 1\<rparr> else r) st1)
      in notify_supermentors e rest st2)"

text \<open>
  A mentor is written to when the row was found and has an email address; the WhatsApp
  message is sent inside that branch, when the mobile number formats.
\<close>

definition notify_mentor ::
  "env \<Rightarrow> audience \<Rightarrow> mentor option \<Rightarrow> (bool \<Rightarrow> notif_result \<Rightarrow> notif_result) \<Rightarrow>
   (bool \<Rightarrow> notif_result \<Rightarrow> notif_result) \<Rightarrow> notif_state \<Rightarrow> notif_state" where
  "notify_mentor e a m on_email on_whatsapp st =
     (case m of
        None \<Rightarrow> st
      | Some row \<Rightarrow>
          (case mentor_email row of
             None \<Rightarrow> st
           | Some email \<Rightarrow>
               if email = [] then st
               else (let st1 = email_to e a email on_email st
                     in case formatPhoneForWhatsApp (mentor_mobile row) of
                          None \<Rightarrow> st1
                        | Some phone \<Rightarrow> whatsapp_to e a phone on_whatsapp st1)))"

text \<open>\<open>if (id) fetch the row of Mentor Details\<close>\<close>

definition fetch_mentor :: "env \<Rightarrow> int option \<Rightarrow> mentor option" where
  "fetch_mentor e v = (case v of None \<Rightarrow> None | Some n \<Rightarrow> if n = 0 then None else env_mentor e n)"

text \<open>\<open>sendUpdateNotifications\<close>, lines 562 to 1145.\<close>

definition sendUpdateNotifications ::
  "env \<Rightarrow> string \<Rightarrow> session \<Rightarrow> update_type \<Rightarrow> int option \<Rightarrow> int option \<Rightarrow> string \<Rightarrow> notif_state" where
  "sendUpdateNotifications e tableName session updateType oldMentorId newMentorId changedField =
     (let isSwapChange = (changedField = ''swapped_mentor_id'')
      in case parseCohortFromTableName tableName of
           None \<Rightarrow> (no_notifications, [])
         | Some cohortInfo \<Rightarrow>
            (let students = env_students e (fst cohortInfo) (snd cohortInfo);
                 effectiveMentorId =
                   (case swapped_mentor_id session of Some v \<Rightarrow> Some v | None \<Rightarrow> mentor_id session);
                 currentMentor = fetch_mentor e effectiveMentorId;
                 originalMentor = (if isSwapChange then fetch_mentor e (mentor_id session) else None);
                 swappedMentor = (if isSwapChange then fetch_mentor e newMentorId else None);
                 oldSwappedMentor = (if isSwapChange then fetch_mentor e oldMentorId else None);
                 oldMentor =
                   (if truthy_id oldMentorId \<and> oldMentorId \<noteq> effectiveMentorId \<and> \<not> isSwapChange
                    then fetch_mentor e oldMentorId else None);
                 newMentor =
                   (if truthy_id newMentorId \<and> newMentorId \<noteq> or_id oldMentorId (mentor_id session)
                       \<and> \<not> isSwapChange
                    then fetch_mentor e newMentorId else None);
                 supermentors = env_supermentors e;
                 st0 = (no_notifications, []);
                 st1 = (case students of
                          None \<Rightarrow> st0
                        | Some studs \<Rightarrow>
                            if studs \<noteq> [] \<and> (updateType = Reschedule \<or> updateType = Details_Updated)
                            then notify_students e studs st0 else st0);
                 st2 = (if isSwapChange then
                          (let a = notify_mentor e OriginalMentor originalMentor
                                     (\<lambda>success r. r\<lparr>originalMentorNotified := success\<rparr>) (\<lambda>success r. r) st1;
                               b = notify_mentor e SwappedMentor swappedMentor
                                     (\<lambda>success r. r\<lparr>swappedMentorNotified := success\<rparr>) (\<lambda>success r. r) a
                           in if map_option mentor_row_id oldSwappedMentor
                                   \<noteq> map_option mentor_row_id swappedMentor
                              then notify_mentor e OldSwappedMentor oldSwappedMentor
                                     (\<lambda>success r. r) (\<lambda>success r. r) b
                              else b)
                        else notify_mentor e CurrentMentor currentMentor
                               (\<lambda>success r. r\<lparr>mentorSent := success\<rparr>)
                               (\<lambda>success r. r\<lparr>whatsapp_mentor := success\<rparr>) st1);
                 st3 = notify_mentor e OldMentor oldMentor
                         (\<lambda>success r. r\<lparr>oldMentorNotified := success\<rparr>) (\<lambda>success r. r) st2;
                 st4 = notify_mentor e NewMentor newMentor
                         (\<lambda>success r. r\<lparr>newMentorNotified := success\<rparr>) (\<lambda>success r. r) st3
             in case supermentors of
                  None \<Rightarrow> st4
                | Some sms \<Rightarrow> notify_supermentors e sms st4))"

section \<open>Kinds of events\<close>

fun is_send :: "event \<Rightarrow> bool" where
  "is_send (Email a addr) = True"
| "is_send (WhatsApp a phone) = True"
| "is_send ev = False"

fun to_student :: "event \<Rightarrow> bool" where
  "to_student (Email a addr) = (a = Student)"
| "to_student (WhatsApp a phone) = (a = Student)"
| "to_student ev = False"


fun is_store_write :: "event \<Rightarrow> bool" where
  "is_store_write (Mentor_Write v) = True"
| "is_store_write (Link_Write v) = True"
| "is_store_write Flags_Reset = True"
| "is_store_write ev = False"

fun is_meeting_event :: "event \<Rightarrow> bool" where
  "is_meeting_event (Delete_Meeting link) = True"
| "is_meeting_event (Create_Meeting subject start end' attendees) = True"
| "is_meeting_event (Link_Write v) = True"
| "is_meeting_event ev = False"

section \<open>The session-update handler (POST /api/cohort/session-update)\<close>

text \<open>
  The body of the request. A text field that is absent is the empty string, an absent id is
  \<open>None\<close>, an absent session id is \<open>0\<close>; all of these are falsy in the source. The fields
  \<open>oldDate\<close>, \<open>oldTime\<close> and \<open>oldSessionType\<close> only reach the message texts and the log and
  are left out.
\<close>

record update_request =
  req_tableName :: string
  req_sessionId :: int
  req_newDate :: string
  req_newTime :: string
  req_skipMeetingRegeneration :: bool
  req_changedField :: string
  req_oldValue :: "int option"
  req_newValue :: "int option"
  req_oldMentorId :: "int option"
  req_newMentorId :: "int option"
  req_newSessionType :: string
  req_isNewSession :: bool

record update_results =
  meetingDeleted :: bool
  meetingCreated :: bool
  newMeetingLink :: "string option"
  meetingLinkCleared :: bool
  notificationsSent :: notif_result

definition initial_results :: update_results where
  "initial_results =
     \<lparr>meetingDeleted = False, meetingCreated = False, newMeetingLink = None,
      meetingLinkCleared = False, notificationsSent = no_notifications\<rparr>"

datatype update_response =
    Update_Missing_Fields
  | Update_Session_Not_Found
  | Update_Success update_results

definition lower :: "string \<Rightarrow> string" where
  "lower s = map to_lower s"

text \<open>Lines 1230 to 1232.\<close>

definition currentIsContest :: "session \<Rightarrow> bool" where
  "currentIsContest session =
     (case session_type session of None \<Rightarrow> False | Some t \<Rightarrow> t \<noteq> [] \<and> lower t = ''contest'')"

definition changedToContest :: "update_request \<Rightarrow> bool" where
  "changedToContest rq = (req_newSessionType rq \<noteq> [] \<and> lower (req_newSessionType rq) = ''contest'')"

definition isContest :: "update_request \<Rightarrow> session \<Rightarrow> bool" where
  "isContest rq session = (currentIsContest session \<or> changedToContest rq)"

text \<open>The store write \<open>update({ teams_meeting_link: v }).eq('id', sessionId)\<close>.\<close>

definition write_link :: "env \<Rightarrow> db \<Rightarrow> update_request \<Rightarrow> string option \<Rightarrow> db" where
  "write_link e store rq v =
     (if env_link_write_ok e
      then update_rows store (req_tableName rq) (\<lambda>row. id_col row = req_sessionId rq)
             (\<lambda>row. row\<lparr>teams_meeting_link := v\<rparr>)
      else store)"

text \<open>Lines 1304 to 1332 (and 1388 to 1416): the attendees of a new meeting.\<close>

definition attendeeEmails :: "env \<Rightarrow> string \<Rightarrow> session \<Rightarrow> string list" where
  "attendeeEmails e tableName session =
     (case fetch_mentor e (or_id (swapped_mentor_id session) (mentor_id session)) of
        None \<Rightarrow> []
      | Some m \<Rightarrow> (case mentor_email m of None \<Rightarrow> [] | Some a \<Rightarrow> if a = [] then [] else [a]))
     @ (case parseCohortFromTableName tableName of
          None \<Rightarrow> []
        | Some cohortInfo \<Rightarrow>
            (case env_students e (fst cohortInfo) (snd cohortInfo) of
               None \<Rightarrow> []
             | Some studs \<Rightarrow>
                 concat (map (\<lambda>s. case student_email s of
                                     None \<Rightarrow> []
                                   | Some a \<Rightarrow> if a = [] then [] else [a]) studs)))"

definition meeting_subject :: "string \<Rightarrow> session \<Rightarrow> string" where
  "meeting_subject tableName session =
     (let name = (case subject_name session of
                    None \<Rightarrow> ''Session'' | Some n \<Rightarrow> if n = [] then ''Session'' else n)
      in case parseCohortFromTableName tableName of
           Some cohortInfo \<Rightarrow> ''Cohort '' @ fst cohortInfo @ '' '' @ snd cohortInfo @ '' - '' @ name
         | None \<Rightarrow> ''Cohort - '' @ name)"

text \<open>
  Creating the meeting for the given date and time and storing its link; the part of the two
  branches after the old meeting, if any, was deleted.
\<close>

definition create_and_store ::
  "env \<Rightarrow> db \<Rightarrow> update_request \<Rightarrow> session \<Rightarrow> string \<Rightarrow> string \<Rightarrow> update_results \<Rightarrow>
   update_results \<times> db \<times> event list" where
  "create_and_store e store rq session effectiveDate effectiveTime results =
     (let start = startDateTime effectiveDate effectiveTime;
          end' = endDateTime effectiveDate effectiveTime;
          subject = meeting_subject (req_tableName rq) session;
          attendees = attendeeEmails e (req_tableName rq) session
      in case env_create_meeting e subject start end' attendees of
           Create_Threw \<Rightarrow> (results, store, [Create_Meeting subject start end' attendees])
         | Create_Null \<Rightarrow> (results, store, [Create_Meeting subject start end' attendees])
         | Create_Link newLink \<Rightarrow>
             if newLink = [] then (results, store, [Create_Meeting subject start end' attendees])
             else (results\<lparr>meetingCreated := True, newMeetingLink := Some newLink\<rparr>,
                   write_link e store rq (Some newLink),
                   [Create_Meeting subject start end' attendees, Link_Write (Some newLink)]))"

text \<open>
  Step 1, lines 1239 to 1448. An exception inside a branch (no access token, a throwing
  provider call) ends the branch with what was done so far.
\<close>

definition reconcile_meeting ::
  "env \<Rightarrow> db \<Rightarrow> update_request \<Rightarrow> session \<Rightarrow> update_results \<times> db \<times> event list" where
  "reconcile_meeting e store rq session =
     (if isContest rq session then
        (case teams_meeting_link session of
           None \<Rightarrow> (initial_results, store, [])
         | Some link \<Rightarrow>
             if changedToContest rq \<and> link \<noteq> [] then
               (if env_token_ok e
                then (initial_results\<lparr>meetingDeleted := env_delete_meeting e link,
                                        meetingLinkCleared := True\<rparr>,
                      write_link e store rq None,
                      [Delete_Meeting link, Link_Write None])
                else (initial_results, store, []))
             else (initial_results, store, []))
      else if truthy_str (teams_meeting_link session) \<and> \<not> req_skipMeetingRegeneration rq then
        (case teams_meeting_link session of
           None \<Rightarrow> (initial_results, store, [])
         | Some link \<Rightarrow>
             if env_token_ok e then
               (let results = initial_results\<lparr>meetingDeleted := env_delete_meeting e link\<rparr>;
                    effectiveDate =
                      effective_date (if req_newDate rq \<noteq> [] then req_newDate rq else date session);
                    effectiveTime = effective_time (req_newTime rq) (time session);
                    created = create_and_store e store rq session effectiveDate effectiveTime results
                in (fst created, fst (snd created), Delete_Meeting link # snd (snd created)))
             else (initial_results, store, []))
      else if req_isNewSession rq \<and> \<not> truthy_str (teams_meeting_link session)
              \<and> \<not> isContest rq session then
        (if env_token_ok e
         then create_and_store e store rq session (effective_date (date session))
                (effective_time [] (time session)) initial_results
         else (initial_results, store, []))
      else (initial_results, store, []))"

text \<open>Lines 1451 to 1464: the kind of update and the gate of the notifications.\<close>

definition updateType_of :: "string \<Rightarrow> update_type" where
  "updateType_of changedField =
     (if changedField = ''date'' \<or> changedField = ''time'' then Reschedule
      else if changedField = ''mentor_id'' \<or> changedField = ''swapped_mentor_id'' then Details_Updated
      else if changedField = ''subject_name'' \<or> changedField = ''session_type''
              \<or> changedField = ''subject_topic'' then Details_Updated
      else Reschedule)"

definition shouldSendNotifications :: "update_request \<Rightarrow> session \<Rightarrow> bool" where
  "shouldSendNotifications rq session =
     (let isSwapChange = (req_changedField rq = ''swapped_mentor_id'')
      in isSwapChange \<or> email_sent session = Some True \<or> whatsapp_sent session = Some True)"

text \<open>Step 2, lines 1466 to 1504.\<close>

definition dispatch :: "env \<Rightarrow> update_request \<Rightarrow> session \<Rightarrow> notif_state" where
  "dispatch e rq session =
     (let mentorChanged =
            (req_changedField rq = ''mentor_id'' \<or> req_changedField rq = ''swapped_mentor_id'');
          effectiveOldMentorId =
            or_id (req_oldMentorId rq) (if mentorChanged then req_oldValue rq else None);
          effectiveNewMentorId =
            or_id (req_newMentorId rq) (if mentorChanged then req_newValue rq else None)
      in if shouldSendNotifications rq session then
           (let sent = sendUpdateNotifications e (req_tableName rq) session
                         (updateType_of (req_changedField rq))
                         effectiveOldMentorId effectiveNewMentorId (req_changedField rq)
            in (fst sent, Dispatch_Started # snd sent))
         else (no_notifications, []))"

text \<open>Step 3, lines 1506 to 1523.\<close>

definition reset_flags :: "env \<Rightarrow> db \<Rightarrow> update_request \<Rightarrow> session \<Rightarrow> db \<times> event list" where
  "reset_flags e store rq session =
     (if email_sent session = Some True \<or> whatsapp_sent session = Some True then
        (if env_flags_write_ok e
         then update_rows store (req_tableName rq) (\<lambda>row. id_col row = req_sessionId rq)
                (\<lambda>row. row\<lparr>email_sent := Some False, whatsapp_sent := Some False\<rparr>)
         else store,
         [Flags_Reset])
      else (store, []))"

text \<open>
  The handler, lines 1149 to 1534: the response, the store as the request leaves it, and the
  events in the order they happened.
\<close>

definition POST_session_update ::
  "env \<Rightarrow> db \<Rightarrow> update_request \<Rightarrow> update_response \<times> db \<times> event list" where
  "POST_session_update e store rq =
     (if req_tableName rq = [] \<or> req_sessionId rq = 0 then (Update_Missing_Fields, store, [])
      else
        (case single (select_rows store (req_tableName rq) (\<lambda>row. id_col row = req_sessionId rq)) of
           None \<Rightarrow> (Update_Session_Not_Found, store, [])
         | Some session \<Rightarrow>
             (let meeting = reconcile_meeting e store rq session;
                  sent = dispatch e rq session;
                  reset = reset_flags e (fst (snd meeting)) rq session
              in (Update_Success ((fst meeting)\<lparr>notificationsSent := fst sent\<rparr>),
                  fst reset,
                  snd (snd meeting) @ snd sent @ snd reset))))"

section \<open>The swap handler (POST /api/session/swap-mentor, unnamed/part_000)\<close>

record swap_request =
  swap_tableName :: string
  swap_sessionId :: int
  swap_swappedMentorId :: "int option"

text \<open>
  The responses: 400, 404, 409 with the table, the batch name and the subject of the
  conflict, 500 for a rejected update, and success with what the session-update handler
  reported (nothing, when it was not called or did not answer with success).
\<close>

datatype swap_response =
    Swap_Missing_Fields
  | Swap_Session_Not_Found
  | Swap_Conflict string string string
  | Swap_Update_Failed
  | Swap_Success "update_results option"

text \<open>
  Lines 138 to 156: the body sent to the session-update handler. The handler is called over
  HTTP and is taken to be reachable; its effects on the store and its events follow those of
  the swap handler.
\<close>

definition session_update_body :: "swap_request \<Rightarrow> session \<Rightarrow> update_request" where
  "session_update_body rq session =
     \<lparr>req_tableName = swap_tableName rq,
      req_sessionId = swap_sessionId rq,
      req_newDate = date session,
      req_newTime = time session,
      req_skipMeetingRegeneration = (\<not> truthy_str (teams_meeting_link session)),
      req_changedField = ''swapped_mentor_id'',
      req_oldValue = None,
      req_newValue = None,
      req_oldMentorId = or_id (swapped_mentor_id session) (mentor_id session),
      req_newMentorId = swap_swappedMentorId rq,
      req_newSessionType = [],
      req_isNewSession = False\<rparr>"

definition POST_swap_mentor :: "env \<Rightarrow> db \<Rightarrow> swap_request \<Rightarrow> swap_response \<times> db \<times> event list" where
  "POST_swap_mentor e store rq =
     (if swap_tableName rq = [] \<or> swap_sessionId rq = 0 then (Swap_Missing_Fields, store, [])
      else
        (case single (select_rows store (swap_tableName rq) (\<lambda>row. id_col row = swap_sessionId rq)) of
           None \<Rightarrow> (Swap_Session_Not_Found, store, [])
         | Some session \<Rightarrow>
             (case conflict_check store (env_schedule_tables e) (swap_tableName rq)
                     (swap_sessionId rq) session (swap_swappedMentorId rq) of
                Some (checkTableName, conflict) \<Rightarrow>
                  (Swap_Conflict checkTableName (batch_name checkTableName)
                     (case subject_name conflict of
                        None \<Rightarrow> ''Session'' | Some n \<Rightarrow> if n = [] then ''Session'' else n),
                   store, [])
              | None \<Rightarrow>
                  (let v = (if truthy_id (swap_swappedMentorId rq) then swap_swappedMentorId rq
                            else None)
                   in if \<not> env_mentor_write_ok e then (Swap_Update_Failed, store, [Mentor_Write v])
                      else
                        (let store1 = update_rows store (swap_tableName rq)
                                        (\<lambda>row. id_col row = swap_sessionId rq)
                                        (\<lambda>row. row\<lparr>swapped_mentor_id := v\<rparr>)
                         in if truthy_id (swap_swappedMentorId rq) then
                              (let answer = POST_session_update e store1 (session_update_body rq session)
                               in (Swap_Success
                                     (case fst answer of
                                        Update_Success results \<Rightarrow> Some results | _ \<Rightarrow> None),
                                   fst (snd answer),
                                   Mentor_Write v # snd (snd answer)))
                            else (Swap_Success None, store1, [Mentor_Write v]))))))"

section \<open>Concrete sessions, stores and environments\<close>

text \<open>
  An environment in which every provider works and nobody is registered; the examples below
  change the parts they need.
\<close>

definition plain_env :: env where
  "plain_env =
     \<lparr>env_schedule_tables = Some [''basic6_0_schedule'', ''adv3_1_schedule''],
      env_mentor_write_ok = True,
      env_token_ok = True,
      env_delete_meeting = (\<lambda>link. True),
      env_create_meeting = (\<lambda>subject start end' attendees. Create_Link ''https://teams.example/new''),
      env_students = (\<lambda>cohortType cohortNumber. Some []),
      env_mentor = (\<lambda>n. None),
      env_supermentors = Some [],
      env_send_email = (\<lambda>a addr. Delivered),
      env_send_whatsapp = (\<lambda>a phone. True),
      env_link_write_ok = True,
      env_flags_write_ok = True\<rparr>"

definition plain_session :: session where
  "plain_session =
     \<lparr>id_col = 1, date = ''2024-02-01'', time = ''09:00'', subject_name = Some ''Graphs'',
      session_type = Some ''normal'', mentor_id = Some 3, swapped_mentor_id = None,
      teams_meeting_link = None, email_sent = Some False, whatsapp_sent = Some False,
      initial_session_material = None, session_material = None\<rparr>"

text \<open>
  Mentor 7 owns session 5 of \<open>adv3_1_schedule\<close> at the date and time of session 1 of
  \<open>basic6_0_schedule\<close>.
\<close>

definition busy_session :: session where
  "busy_session = plain_session\<lparr>id_col := 5, subject_name := Some ''Trees'', mentor_id := Some 7\<rparr>"

definition two_tables :: db where
  "two_tables =
     Map.empty(''basic6_0_schedule'' \<mapsto> [plain_session], ''adv3_1_schedule'' \<mapsto> [busy_session])"

definition swap_in_7 :: swap_request where
  "swap_in_7 =
     \<lparr>swap_tableName = ''basic6_0_schedule'', swap_sessionId = 1, swap_swappedMentorId = Some 7\<rparr>"

text \<open>Mentor 7 owns a session that mentor 9 covers.\<close>

definition covered_session :: session where
  "covered_session = busy_session\<lparr>swapped_mentor_id := Some 9\<rparr>"

definition covered_tables :: db where
  "covered_tables =
     Map.empty(''basic6_0_schedule'' \<mapsto> [plain_session], ''adv3_1_schedule'' \<mapsto> [covered_session])"

text \<open>
  A cohort with one student, the mentors 3 and 7 and one administrator, all with an email
  address and a phone number.
\<close>

definition staffed_env :: env where
  "staffed_env =
     plain_env
       \<lparr>env_students := (\<lambda>cohortType cohortNumber.
            if cohortType = ''Basic'' \<and> cohortNumber = ''6.0''
            then Some [\<lparr>student_name = Some ''Asha'', student_email = Some ''asha@example.org'',
                        student_phone = Some ''9876543210''\<rparr>]
            else Some []),
        env_mentor := (\<lambda>n.
            if n = 3 then Some \<lparr>mentor_row_id = 3, mentor_name = Some ''Ravi'',
                                 mentor_email = Some ''ravi@example.org'',
                                 mentor_mobile = Some ''9876500003''\<rparr>
            else if n = 7 then Some \<lparr>mentor_row_id = 7, mentor_name = Some ''Meera'',
                                      mentor_email = Some ''meera@example.org'',
                                      mentor_mobile = Some ''9876500007''\<rparr>
            else None),
        env_supermentors := Some [\<lparr>supermentor_name = Some ''Admin'',
                                    supermentor_email = Some ''admin@example.org'',
                                    supermentor_phone = Some ''9876500000''\<rparr>]\<rparr>"

text \<open>A table that holds only session 1, not yet announced, and the swap of mentor 7 into it.\<close>

definition one_table :: db where
  "one_table = Map.empty(''basic6_0_schedule'' \<mapsto> [plain_session])"

text \<open>The same session after the announcement, in a table whose name names no cohort.\<close>

definition announced_session :: session where
  "announced_session = plain_session\<lparr>email_sent := Some True, whatsapp_sent := Some True\<rparr>"

definition misc_table :: db where
  "misc_table = Map.empty(''misc_schedule'' \<mapsto> [announced_session])"

definition reschedule_request :: "string \<Rightarrow> update_request" where
  "reschedule_request t =
     \<lparr>req_tableName = t, req_sessionId = 1, req_newDate = ''2024-02-03'', req_newTime = ''23:00'',
      req_skipMeetingRegeneration = False, req_changedField = ''date'', req_oldValue = None,
      req_newValue = None, req_oldMentorId = None, req_newMentorId = None,
      req_newSessionType = [], req_isNewSession = False\<rparr>"

text \<open>An announced session with a meeting, and a contest session that holds a meeting link.\<close>

definition meeting_session :: session where
  "meeting_session = announced_session\<lparr>teams_meeting_link := Some ''https://teams.example/old''\<rparr>"

definition meeting_table :: db where
  "meeting_table = Map.empty(''basic6_0_schedule'' \<mapsto> [meeting_session])"



text \<open>
  Session 1 announced and covered by mentor 7, the request that removes the cover, and an
  environment whose store rejects the update of the notification flags.
\<close>

definition covered_announced :: session where
  "covered_announced = announced_session\<lparr>swapped_mentor_id := Some 7\<rparr>"

definition covered_announced_table :: db where
  "covered_announced_table = Map.empty(''basic6_0_schedule'' \<mapsto> [covered_announced])"

definition swap_removal :: swap_request where
  "swap_removal =
     \<lparr>swap_tableName = ''basic6_0_schedule'', swap_sessionId = 1, swap_swappedMentorId = None\<rparr>"

definition rejecting_env :: env where
  "rejecting_env = staffed_env\<lparr>env_flags_write_ok := False\<rparr>"

section \<open>Facts about the string operations\<close>

lemma last_dropWhile: "dropWhile P xs \<noteq> [] \<Longrightarrow> last (dropWhile P xs) = last xs"
  by (induction xs) (auto split: if_splits)

lemma trim_clean: "clean s \<Longrightarrow> trim s = s"
proof (cases "s = []")
  case True
  then show ?thesis by (simp add: trim_def)
next
  case False
  assume "clean s"
  with False have h: "\<not> is_space (hd s)" and l: "\<not> is_space (last s)"
    by (auto simp: clean_def)
  from False h have a: "dropWhile is_space s = s"
    by (cases s) auto
  from False l have b: "dropWhile is_space (rev s) = rev s"
    by (cases "rev s") (auto simp: hd_rev[symmetric] simp del: hd_rev)
  show ?thesis by (simp add: trim_def a b)
qed

lemma clean_trim: "clean (trim s)"
proof (cases "trim s = []")
  case True
  then show ?thesis by (simp add: clean_def)
next
  case False
  define u where "u = dropWhile is_space s"
  define v where "v = dropWhile is_space (rev u)"
  have t: "trim s = rev v" by (simp add: trim_def u_def v_def)
  with False have vne: "v \<noteq> []" by simp
  then have une: "u \<noteq> []" by (auto simp: v_def)
  have "\<not> is_space (hd v)" using vne unfolding v_def by (rule hd_dropWhile)
  then have l: "\<not> is_space (last (trim s))" using vne by (simp add: t last_rev)
  have "last v = last (rev u)" using vne unfolding v_def by (rule last_dropWhile)
  then have "last v = hd u" using une by (simp add: last_rev)
  moreover have "\<not> is_space (hd u)" using une unfolding u_def by (rule hd_dropWhile)
  ultimately have h: "\<not> is_space (hd (trim s))" using vne by (simp add: t hd_rev)
  from h l show ?thesis by (simp add: clean_def)
qed

lemma trim_space: "trim (CHR '' '' # s) = trim s"
  by (simp add: trim_def is_space_def)

lemma trim_Nil: "trim [] = []"
  by (simp add: trim_def)

lemma set_trim: "set (trim s) \<subseteq> set s"
proof -
  have "set (trim s) = set (dropWhile is_space (rev (dropWhile is_space s)))"
    by (simp add: trim_def)
  also have "\<dots> \<subseteq> set (rev (dropWhile is_space s))"
    by (auto dest: set_dropWhileD)
  also have "\<dots> \<subseteq> set s"
    by (auto dest: set_dropWhileD)
  finally show ?thesis .
qed

lemma split_on_not_Nil: "split_on sep s \<noteq> []"
  by (induction s) (auto split: list.splits)

lemma split_on_pieces: "w \<in> set (split_on sep s) \<Longrightarrow> sep \<notin> set w"
  by (induction s arbitrary: w) (auto split: if_splits list.splits)

lemma split_on_no_sep: "sep \<notin> set s \<Longrightarrow> split_on sep s = [s]"
  by (induction s) auto

lemma split_on_append: "sep \<notin> set a \<Longrightarrow> split_on sep (a @ sep # b) = a # split_on sep b"
  by (induction a) auto

lemma parse_links_ok: "l \<in> set (parse_links col) \<Longrightarrow> link_ok l"
  using set_trim by (auto simp: parse_links_def link_ok_def clean_trim dest!: split_on_pieces)

lemma map_trim_split_space:
  "map trim (split_on CHR '','' (CHR '' '' # s)) = map trim (split_on CHR '','' s)"
  using split_on_not_Nil [of "CHR '',''" s]
  by (cases "split_on CHR '','' s") (auto simp: trim_space)

lemma parse_links_join_aux:
  "sep = '', '' \<Longrightarrow> \<forall>l \<in> set xs. link_ok l \<Longrightarrow> parse_links (Some (join_with sep xs)) = xs"
proof (induction sep xs rule: join_with.induct)
  case (1 sep)
  then show ?case by (simp add: parse_links_def trim_Nil)
next
  case (2 sep x)
  then show ?case
    by (simp add: parse_links_def link_ok_def split_on_no_sep trim_clean)
next
  case (3 sep x y ys)
  then have ih: "parse_links (Some (join_with '', '' (y # ys))) = y # ys" by simp
  from 3 have x: "x \<noteq> []" "clean x" "CHR '','' \<notin> set x" by (auto simp: link_ok_def)
  have "split_on CHR '','' (join_with '', '' (x # y # ys))
      = x # split_on CHR '','' (CHR '' '' # join_with '', '' (y # ys))"
    using split_on_append [OF x(3), of "CHR '' '' # join_with '', '' (y # ys)"]
    by (simp del: split_on.simps)
  then have "map trim (split_on CHR '','' (join_with '', '' (x # y # ys)))
      = trim x # map trim (split_on CHR '','' (join_with '', '' (y # ys)))"
    by (simp only: list.map map_trim_split_space)
  then show ?case
    using ih x 3(2) by (simp add: parse_links_def trim_clean del: split_on.simps join_with.simps)
qed

lemma parse_links_join:
  "\<forall>l \<in> set xs. link_ok l \<Longrightarrow> parse_links (Some (join_with '', '' xs)) = xs"
  by (rule parse_links_join_aux) simp_all

lemma parse_links_removed:
  "parse_links (Some (join_with '', '' (filter (\<lambda>link. link \<noteq> l) (parse_links col))))
     = filter (\<lambda>link. link \<noteq> l) (parse_links col)"
  by (rule parse_links_join) (auto dest: parse_links_ok)

section \<open>Facts about the store\<close>

lemma single_Some: "single res = Some row \<longleftrightarrow> res = Some [row]"
  by (auto simp: single_def split: option.splits list.splits)

lemma filter_update_key:
  assumes "\<And>row. p (patch row) = p row"
  shows "filter p (map (\<lambda>row. if p row then patch row else row) rows) = map patch (filter p rows)"
  using assms by (induction rows) auto

lemma select_update_rows:
  assumes "\<And>row. p (patch row) = p row"
  shows "select_rows (update_rows store t p patch) t p = map_option (map patch) (select_rows store t p)"
  using filter_update_key [of p patch, OF assms]
  by (auto simp: select_rows_def update_rows_def split: option.splits)

lemma single_update_rows:
  assumes "\<And>row. p (patch row) = p row"
    and "single (select_rows store t p) = Some session"
  shows "single (select_rows (update_rows store t p patch) t p) = Some (patch session)"
  using assms(2) by (simp add: single_Some select_update_rows [of p patch, OF assms(1)])

lemma update_rows_other_table: "t' \<noteq> t \<Longrightarrow> update_rows store t p patch t' = store t'"
  by (simp add: update_rows_def split: option.splits)

lemma update_rows_other_rows:
  "select_rows (update_rows store t p patch) t (\<lambda>row. \<not> p row)
     = select_rows store t (\<lambda>row. \<not> p row)"
  if "\<And>row. p (patch row) = p row"
proof -
  have "filter (\<lambda>row. \<not> p row) (map (\<lambda>row. if p row then patch row else row) rows)
       = filter (\<lambda>row. \<not> p row) rows" for rows
    using that by (induction rows) auto
  then show ?thesis
    by (auto simp: select_rows_def update_rows_def split: option.splits)
qed

section \<open>Session material: merging link lists\<close>

lemma set_dedupe: "set (dedupe xs) = set xs"
  by (induction xs rule: dedupe.induct) auto

lemma distinct_dedupe: "distinct (dedupe xs)"
  by (induction xs rule: dedupe.induct) (auto simp: set_dedupe)

lemma dedupe_distinct_id: "distinct xs \<Longrightarrow> dedupe xs = xs"
proof (induction xs)
  case Nil
  then show ?case by simp
next
  case (Cons x xs)
  then have "filter (\<lambda>y. y \<noteq> x) xs = xs"
    by (auto intro: filter_True)
  with Cons show ?case by simp
qed

lemma get_merge_eq: "get_merge A B = A @ dedupe (filter (\<lambda>x. x \<notin> set A) B)"
  by (induction B arbitrary: A) (simp_all add: conj_ac)

lemma post_merge_eq:
  "post_merge A B = A @ dedupe (filter (\<lambda>x. x \<noteq> [] \<and> x \<notin> set A) (map trim B))"
  by (induction B arbitrary: A) (simp_all add: Let_def conj_ac)

lemma get_merge_self: "get_merge L L = L"
  by (simp add: get_merge_eq)

lemma post_merge_self: "\<forall>l \<in> set L. trim l = l \<Longrightarrow> post_merge L L = L"
proof -
  assume "\<forall>l \<in> set L. trim l = l"
  then have "map trim L = L" by (simp add: map_idI)
  then show ?thesis by (simp add: post_merge_eq)
qed

lemma distinct_get_merge: "distinct A \<Longrightarrow> distinct (get_merge A B)"
  by (auto simp: get_merge_eq distinct_dedupe set_dedupe)

lemma distinct_post_merge: "distinct A \<Longrightarrow> distinct (post_merge A B)"
  by (auto simp: post_merge_eq distinct_dedupe set_dedupe)

text \<open>
  The merge of a list with itself is not \<open>dedupe\<close> of the list when the list has a repeated
  link: both handlers start from a copy of the base list and only skip links that are
  already included, so a duplicate inside the base list stays. The stored column \<open>a, a\<close>
  parses to such a list.
\<close>

theorem merge_links_counterexample:
  "parse_links (Some ''a, a'') = [''a'', ''a'']
   \<and> get_merge [''a'', ''a''] [''a'', ''a''] = [''a'', ''a'']
   \<and> dedupe [''a'', ''a''] = [''a'']
   \<and> get_merge [''a'', ''a''] [''a'', ''a''] \<noteq> dedupe [''a'', ''a'']
   \<and> post_merge [''a'', ''a''] [''a'', ''a''] \<noteq> dedupe [''a'', ''a'']
   \<and> \<not> distinct (get_merge [''a'', ''a''] [''a'', ''a''])"
  by (simp add: parse_links_def trim_def is_space_def Let_def)

text \<open>
  Claim C7, as amended. For a duplicate-free link list \<open>L\<close> (of trimmed links, for the POST
  handler, which trims what it adds) the merge of \<open>L\<close> with itself is \<open>dedupe L\<close> and has no
  duplicates. In general both merges give the base list followed by the first occurrences of
  the links that are new to it, in their order, so only links not already present are added
  and a duplicate-free base gives a duplicate-free result.
\<close>

theorem merge_links_distinct:
  "(distinct L \<longrightarrow> get_merge L L = dedupe L \<and> distinct (get_merge L L))
   \<and> (distinct L \<and> (\<forall>l \<in> set L. trim l = l) \<longrightarrow>
        post_merge L L = dedupe L \<and> distinct (post_merge L L))
   \<and> get_merge A B = A @ dedupe (filter (\<lambda>x. x \<notin> set A) B)
   \<and> post_merge A B = A @ dedupe (filter (\<lambda>x. x \<noteq> [] \<and> x \<notin> set A) (map trim B))
   \<and> (distinct A \<longrightarrow> distinct (get_merge A B) \<and> distinct (post_merge A B))"
proof (intro conjI impI)
  show "get_merge A B = A @ dedupe (filter (\<lambda>x. x \<notin> set A) B)"
    by (rule get_merge_eq)
  show "post_merge A B = A @ dedupe (filter (\<lambda>x. x \<noteq> [] \<and> x \<notin> set A) (map trim B))"
    by (rule post_merge_eq)
qed (simp_all add: get_merge_self post_merge_self dedupe_distinct_id
      distinct_get_merge distinct_post_merge)

theorem merge_links_distinct_witness:
  "distinct [''a'', ''b''] \<and> trim ''a'' = ''a'' \<and> trim ''b'' = ''b'' \<and> distinct [''a'']
   \<and> get_merge [''a'', ''b''] [''a'', ''b''] = dedupe [''a'', ''b'']
   \<and> post_merge [''a'', ''b''] [''a'', ''b''] = dedupe [''a'', ''b'']
   \<and> get_merge [''a''] [''b'', ''a'', ''b''] = [''a'', ''b'']
   \<and> post_merge [''a''] ['' b'', ''a'', '''', ''b ''] = [''a'', ''b'']
   \<and> distinct (get_merge [''a''] [''b'', ''a'', ''b''])"
proof -
  have d: "distinct [''a'', ''b'']" "distinct [''a'']" by simp_all
  have t: "\<forall>l \<in> set [''a'', ''b'']. trim l = l" by (simp add: trim_def is_space_def)
  show ?thesis
    using d t merge_links_distinct [of "[''a'', ''b'']" "[''a'']" "[''b'', ''a'', ''b'']"]
    by (simp add: trim_def is_space_def Let_def)
qed

section \<open>Session material: deleting a link\<close>

text \<open>
  Claim C10. A PUT request with all four fields that finds its session, and whose update the
  store accepts: if the link is among the initial links, the response names
  \<open>initial_session_material\<close>, the row differs from the fetched one in that column only
  (also when the link is among the session links too), the column has changed and its
  links are the old ones without the link; otherwise, if the link is among the session
  links, the same holds for \<open>session_material\<close>. A link in neither column gives the
  not-found response and the store is unchanged. No other row and no other table changes.
  When the store rejects the update of a link that was found, the response is the failure
  (500) and the store is unchanged.
\<close>

theorem put_material_one_column:
  assumes fields: "tableName \<noteq> []" "d \<noteq> []" "tm \<noteq> []" "l \<noteq> []"
    and found: "single (select_rows store tableName (\<lambda>row. date row = d \<and> time row = tm)) = Some session"
  shows
    "(l \<in> set (parse_links (initial_session_material session)) \<longrightarrow>
        fst (PUT_material True store tableName d tm l) = Put_Deleted ''initial_session_material''
      \<and> single (select_rows (snd (PUT_material True store tableName d tm l)) tableName
            (\<lambda>row. date row = d \<and> time row = tm))
          = Some (session\<lparr>initial_session_material :=
              Some (join_with '', '' (filter (\<lambda>link. link \<noteq> l)
                (parse_links (initial_session_material session))))\<rparr>)
      \<and> parse_links (Some (join_with '', '' (filter (\<lambda>link. link \<noteq> l)
                (parse_links (initial_session_material session)))))
          = filter (\<lambda>link. link \<noteq> l) (parse_links (initial_session_material session))
      \<and> Some (join_with '', '' (filter (\<lambda>link. link \<noteq> l)
                (parse_links (initial_session_material session))))
          \<noteq> initial_session_material session)
   \<and> (l \<notin> set (parse_links (initial_session_material session))
        \<and> l \<in> set (parse_links (session_material session)) \<longrightarrow>
        fst (PUT_material True store tableName d tm l) = Put_Deleted ''session_material''
      \<and> single (select_rows (snd (PUT_material True store tableName d tm l)) tableName
            (\<lambda>row. date row = d \<and> time row = tm))
          = Some (session\<lparr>session_material :=
              Some (join_with '', '' (filter (\<lambda>link. link \<noteq> l)
                (parse_links (session_material session))))\<rparr>)
      \<and> parse_links (Some (join_with '', '' (filter (\<lambda>link. link \<noteq> l)
                (parse_links (session_material session)))))
          = filter (\<lambda>link. link \<noteq> l) (parse_links (session_material session))
      \<and> Some (join_with '', '' (filter (\<lambda>link. link \<noteq> l)
                (parse_links (session_material session))))
          \<noteq> session_material session)
   \<and> (l \<notin> set (parse_links (initial_session_material session))
        \<and> l \<notin> set (parse_links (session_material session)) \<longrightarrow>
        PUT_material write_ok store tableName d tm l = (Put_Link_Not_Found, store))
   \<and> (l \<in> set (parse_links (initial_session_material session))
        \<or> l \<in> set (parse_links (session_material session)) \<longrightarrow>
        PUT_material False store tableName d tm l = (Put_Update_Failed, store))
   \<and> (\<forall>t. t \<noteq> tableName \<longrightarrow> snd (PUT_material write_ok store tableName d tm l) t = store t)
   \<and> select_rows (snd (PUT_material write_ok store tableName d tm l)) tableName
          (\<lambda>row. \<not> (date row = d \<and> time row = tm))
      = select_rows store tableName (\<lambda>row. \<not> (date row = d \<and> time row = tm))"
proof -
  let ?key = "\<lambda>row. date row = d \<and> time row = tm"
  let ?I = "parse_links (initial_session_material session)"
  let ?S = "parse_links (session_material session)"
  let ?newI = "join_with '', '' (filter (\<lambda>link. link \<noteq> l) ?I)"
  let ?newS = "join_with '', '' (filter (\<lambda>link. link \<noteq> l) ?S)"
  have neqI: "Some ?newI \<noteq> initial_session_material session" if "l \<in> set ?I"
  proof
    assume "Some ?newI = initial_session_material session"
    then have "parse_links (Some ?newI) = ?I" by simp
    then have "filter (\<lambda>link. link \<noteq> l) ?I = ?I" by (simp add: parse_links_removed)
    with that show False by (auto simp: filter_id_conv)
  qed
  have neqS: "Some ?newS \<noteq> session_material session" if "l \<in> set ?S"
  proof
    assume "Some ?newS = session_material session"
    then have "parse_links (Some ?newS) = ?S" by simp
    then have "filter (\<lambda>link. link \<noteq> l) ?S = ?S" by (simp add: parse_links_removed)
    with that show False by (auto simp: filter_id_conv)
  qed
  have afterI: "single (select_rows (update_rows store tableName ?key
        (\<lambda>row. row\<lparr>initial_session_material := Some ?newI\<rparr>)) tableName ?key)
      = Some (session\<lparr>initial_session_material := Some ?newI\<rparr>)"
    by (rule single_update_rows [OF _ found]) simp
  have afterS: "single (select_rows (update_rows store tableName ?key
        (\<lambda>row. row\<lparr>session_material := Some ?newS\<rparr>)) tableName ?key)
      = Some (session\<lparr>session_material := Some ?newS\<rparr>)"
    by (rule single_update_rows [OF _ found]) simp
  have othersI: "select_rows (update_rows store tableName ?key
        (\<lambda>row. row\<lparr>initial_session_material := Some ?newI\<rparr>)) tableName (\<lambda>row. \<not> ?key row)
      = select_rows store tableName (\<lambda>row. \<not> ?key row)"
    by (rule update_rows_other_rows) simp
  have othersS: "select_rows (update_rows store tableName ?key
        (\<lambda>row. row\<lparr>session_material := Some ?newS\<rparr>)) tableName (\<lambda>row. \<not> ?key row)
      = select_rows store tableName (\<lambda>row. \<not> ?key row)"
    by (rule update_rows_other_rows) simp
  show ?thesis
    using fields found neqI neqS afterI afterS othersI othersS
    by (simp add: PUT_material_def Let_def parse_links_removed update_rows_other_table)
qed


theorem put_material_one_column_witness:
  "single (select_rows material_store ''basic6_0_schedule''
       (\<lambda>row. date row = ''2024-01-10'' \<and> time row = ''10:00'')) = Some material_row
   \<and> ''b'' \<in> set (parse_links (initial_session_material material_row))
   \<and> ''b'' \<in> set (parse_links (session_material material_row))
   \<and> fst (PUT_material True material_store ''basic6_0_schedule'' ''2024-01-10'' ''10:00'' ''b'')
       = Put_Deleted ''initial_session_material''
   \<and> single (select_rows
        (snd (PUT_material True material_store ''basic6_0_schedule'' ''2024-01-10'' ''10:00'' ''b''))
        ''basic6_0_schedule'' (\<lambda>row. date row = ''2024-01-10'' \<and> time row = ''10:00''))
       = Some (material_row\<lparr>initial_session_material := Some ''a''\<rparr>)"
proof -
  have found: "single (select_rows material_store ''basic6_0_schedule''
       (\<lambda>row. date row = ''2024-01-10'' \<and> time row = ''10:00'')) = Some material_row"
    by (simp add: single_def select_rows_def material_store_def material_row_def)
  have links: "parse_links (initial_session_material material_row) = [''a'', ''b'']"
      "parse_links (session_material material_row) = [''b'', ''c'']"
    by (simp_all add: material_row_def parse_links_def trim_def is_space_def)
  have fields: "''basic6_0_schedule'' \<noteq> []" "''2024-01-10'' \<noteq> []" "''10:00'' \<noteq> []" "''b'' \<noteq> []"
    by simp_all
  show ?thesis
    using put_material_one_column [OF fields found, of True] found links
    by simp
qed

section \<open>The conflict check\<close>

lemma is_busy_iff: "is_busy candidate row = busy_spec candidate row"
  by (auto simp: is_busy_def busy_spec_def Let_def)

lemma scan_conflicts_None:
  "scan_conflicts t tableName sessionId candidate rows = None \<longleftrightarrow>
     (\<forall>row \<in> set rows. (t = tableName \<and> id_col row = sessionId) \<or> \<not> is_busy candidate row)"
  by (induction rows) auto

lemma scan_conflicts_Some:
  "scan_conflicts t tableName sessionId candidate rows = Some c \<Longrightarrow>
     c \<in> set rows \<and> \<not> (t = tableName \<and> id_col c = sessionId) \<and> is_busy candidate c"
  by (induction rows) (auto split: if_splits)

lemma scan_tables_None:
  "scan_tables store tableName sessionId candidate d tm ts = None \<longleftrightarrow>
     (\<forall>t \<in> set ts. \<forall>rows. store t = Some rows \<longrightarrow>
        (\<forall>row \<in> set rows. date row = d \<and> time row = tm \<longrightarrow>
           (t = tableName \<and> id_col row = sessionId) \<or> \<not> is_busy candidate row))"
proof (induction ts)
  case Nil
  then show ?case by simp
next
  case (Cons t ts)
  show ?case
  proof (cases "store t")
    case None
    then show ?thesis using Cons by (simp add: select_rows_def)
  next
    case (Some rows)
    let ?here = "filter (\<lambda>row. date row = d \<and> time row = tm) rows"
    show ?thesis
    proof (cases "scan_conflicts t tableName sessionId candidate ?here")
      case None
      then have "\<forall>row \<in> set rows. date row = d \<and> time row = tm \<longrightarrow>
           (t = tableName \<and> id_col row = sessionId) \<or> \<not> is_busy candidate row"
        by (auto simp: scan_conflicts_None)
      with None Some Cons show ?thesis
        by (simp add: select_rows_def)
    next
      case hit: (Some c)
      from scan_conflicts_Some [OF hit]
      have "c \<in> set rows" "date c = d" "time c = tm"
        "\<not> (t = tableName \<and> id_col c = sessionId)" "is_busy candidate c"
        by auto
      with hit Some show ?thesis
        by (auto simp: select_rows_def)
    qed
  qed
qed

lemma scan_tables_Some:
  "scan_tables store tableName sessionId candidate d tm ts = Some (t, c) \<Longrightarrow>
     t \<in> set ts \<and> (\<exists>rows. store t = Some rows \<and> c \<in> set rows) \<and> date c = d \<and> time c = tm
     \<and> \<not> (t = tableName \<and> id_col c = sessionId) \<and> is_busy candidate c"
proof (induction ts)
  case Nil
  then show ?case by simp
next
  case (Cons t' ts)
  then show ?case
    by (auto simp: select_rows_def split: option.splits dest!: scan_conflicts_Some)
qed

lemma detector_spec_alt:
  "detector_spec store ts tableName sessionId d tm candidate \<longleftrightarrow>
     \<not> (\<forall>t \<in> set ts. \<forall>rows. store t = Some rows \<longrightarrow>
          (\<forall>row \<in> set rows. date row = d \<and> time row = tm \<longrightarrow>
             (t = tableName \<and> id_col row = sessionId) \<or> \<not> is_busy candidate row))"
proof
  assume "detector_spec store ts tableName sessionId d tm candidate"
  then obtain t rows row where "t \<in> set ts" "store t = Some rows" "row \<in> set rows"
      "date row = d" "time row = tm" "\<not> (t = tableName \<and> id_col row = sessionId)"
      "busy_spec candidate row"
    unfolding detector_spec_def by (auto split: option.splits)
  then show "\<not> (\<forall>t \<in> set ts. \<forall>rows. store t = Some rows \<longrightarrow>
          (\<forall>row \<in> set rows. date row = d \<and> time row = tm \<longrightarrow>
             (t = tableName \<and> id_col row = sessionId) \<or> \<not> is_busy candidate row))"
    unfolding is_busy_iff by blast
next
  assume "\<not> (\<forall>t \<in> set ts. \<forall>rows. store t = Some rows \<longrightarrow>
          (\<forall>row \<in> set rows. date row = d \<and> time row = tm \<longrightarrow>
             (t = tableName \<and> id_col row = sessionId) \<or> \<not> is_busy candidate row))"
  then obtain t rows row where t: "t \<in> set ts" and rows: "store t = Some rows"
      and row: "row \<in> set rows" "date row = d" "time row = tm"
        "\<not> (t = tableName \<and> id_col row = sessionId)" "busy_spec candidate row"
    unfolding is_busy_iff by blast
  from row have "\<exists>row \<in> set rows. date row = d \<and> time row = tm
      \<and> \<not> (t = tableName \<and> id_col row = sessionId) \<and> busy_spec candidate row"
    by blast
  with t rows show "detector_spec store ts tableName sessionId d tm candidate"
    unfolding detector_spec_def by (intro bexI [of _ t]) simp_all
qed

lemma scan_tables_spec:
  "scan_tables store tableName sessionId candidate d tm ts \<noteq> None
     \<longleftrightarrow> detector_spec store ts tableName sessionId d tm candidate"
  unfolding detector_spec_alt scan_tables_None ..

lemma conflict_check_spec:
  "conflict_check store tables tableName sessionId session swappedMentorId \<noteq> None
     \<longleftrightarrow> (case (swappedMentorId, tables) of
            (Some candidate, Some ts) \<Rightarrow>
              candidate \<noteq> 0
              \<and> detector_spec store ts tableName sessionId (date session) (time session) candidate
          | _ \<Rightarrow> False)"
  by (cases swappedMentorId; cases tables)
    (auto simp: conflict_check_def scan_tables_spec [symmetric])

lemma conflict_check_Some:
  assumes "conflict_check store tables tableName sessionId session swappedMentorId = Some (t, c)"
  shows "\<exists>candidate ts rows. swappedMentorId = Some candidate \<and> candidate \<noteq> 0 \<and> tables = Some ts
       \<and> t \<in> set ts \<and> store t = Some rows \<and> c \<in> set rows
       \<and> date c = date session \<and> time c = time session
       \<and> \<not> (t = tableName \<and> id_col c = sessionId) \<and> busy_spec candidate c"
  using assms
  by (auto simp: conflict_check_def is_busy_iff split: option.splits if_splits
      dest!: scan_tables_Some)

lemma POST_swap_mentor_conflict_iff:
  assumes "swap_tableName rq \<noteq> []" and "swap_sessionId rq \<noteq> 0"
    and "single (select_rows store (swap_tableName rq) (\<lambda>r. id_col r = swap_sessionId rq)) = Some session"
  shows "(\<exists>ct bn sn. fst (POST_swap_mentor e store rq) = Swap_Conflict ct bn sn)
     \<longleftrightarrow> conflict_check store (env_schedule_tables e) (swap_tableName rq) (swap_sessionId rq)
            session (swap_swappedMentorId rq) \<noteq> None"
  using assms by (auto simp: POST_swap_mentor_def Let_def split: option.splits update_response.splits)

text \<open>
  Claim C2. A row is reported busy for a candidate exactly when the specification's condition
  holds: the row's mentor is the candidate and nobody covers the row, or the candidate covers
  the row. The conflict check of the handler reports a conflict exactly when the candidate is
  truthy, the registry answered, and some listed table that can be read holds a row at the
  session's date and time, other than the session being edited, that is busy in that sense;
  the row it reports is such a row. For a request that finds its session, the handler answers
  with the conflict response exactly in that case. The scan of the rows of one table finds a
  conflict exactly when some row other than the session being edited is busy. An owner whose
  row is covered by somebody else is free, and is busy again once the cover is removed, on
  the row and in what the conflict check reports for a table that holds this row.
\<close>

theorem conflict_detector_busy_iff:
  "is_busy candidate row = busy_spec candidate row
   \<and> (conflict_check store tables tableName sessionId session swappedMentorId \<noteq> None
        \<longleftrightarrow> (case (swappedMentorId, tables) of
               (Some cand, Some ts) \<Rightarrow>
                 cand \<noteq> 0
                 \<and> detector_spec store ts tableName sessionId (date session) (time session) cand
             | _ \<Rightarrow> False))
   \<and> (\<forall>ct c. conflict_check store tables tableName sessionId session swappedMentorId = Some (ct, c)
        \<longrightarrow> (\<exists>cand ts rows. swappedMentorId = Some cand \<and> cand \<noteq> 0 \<and> tables = Some ts
               \<and> ct \<in> set ts \<and> store ct = Some rows \<and> c \<in> set rows
               \<and> date c = date session \<and> time c = time session
               \<and> \<not> (ct = tableName \<and> id_col c = sessionId) \<and> busy_spec cand c))
   \<and> (swap_tableName rq \<noteq> [] \<and> swap_sessionId rq \<noteq> 0
        \<and> single (select_rows store (swap_tableName rq) (\<lambda>r. id_col r = swap_sessionId rq)) = Some session
        \<longrightarrow> ((\<exists>ct bn sn. fst (POST_swap_mentor e store rq) = Swap_Conflict ct bn sn)
              \<longleftrightarrow> (case (swap_swappedMentorId rq, env_schedule_tables e) of
                     (Some cand, Some ts) \<Rightarrow>
                       cand \<noteq> 0
                       \<and> detector_spec store ts (swap_tableName rq) (swap_sessionId rq)
                            (date session) (time session) cand
                   | _ \<Rightarrow> False)))
   \<and> (scan_conflicts t tableName sessionId candidate rows \<noteq> None \<longleftrightarrow>
        (\<exists>r \<in> set rows. \<not> (t = tableName \<and> id_col r = sessionId) \<and> busy_spec candidate r))
   \<and> (mentor_id row = Some candidate \<and> swapped_mentor_id row = Some other \<and> other \<noteq> candidate
        \<longrightarrow> \<not> is_busy candidate row \<and> is_busy candidate (row\<lparr>swapped_mentor_id := None\<rparr>))
   \<and> (candidate \<noteq> 0 \<and> t \<noteq> tableName \<and> date row = date session \<and> time row = time session
        \<and> mentor_id row = Some candidate \<and> swapped_mentor_id row = Some other \<and> other \<noteq> candidate
        \<longrightarrow> conflict_check (store(t \<mapsto> [row])) (Some [t]) tableName sessionId session (Some candidate)
              = None
          \<and> conflict_check (store(t \<mapsto> [row\<lparr>swapped_mentor_id := None\<rparr>])) (Some [t]) tableName
                sessionId session (Some candidate)
              = Some (t, row\<lparr>swapped_mentor_id := None\<rparr>))"
proof (intro conjI)
  show "is_busy candidate row = busy_spec candidate row"
    by (rule is_busy_iff)
  show "conflict_check store tables tableName sessionId session swappedMentorId \<noteq> None
        \<longleftrightarrow> (case (swappedMentorId, tables) of
               (Some cand, Some ts) \<Rightarrow>
                 cand \<noteq> 0
                 \<and> detector_spec store ts tableName sessionId (date session) (time session) cand
             | _ \<Rightarrow> False)"
    by (rule conflict_check_spec)
  show "\<forall>ct c. conflict_check store tables tableName sessionId session swappedMentorId = Some (ct, c)
        \<longrightarrow> (\<exists>cand ts rows. swappedMentorId = Some cand \<and> cand \<noteq> 0 \<and> tables = Some ts
               \<and> ct \<in> set ts \<and> store ct = Some rows \<and> c \<in> set rows
               \<and> date c = date session \<and> time c = time session
               \<and> \<not> (ct = tableName \<and> id_col c = sessionId) \<and> busy_spec cand c)"
    using conflict_check_Some by blast
  show "swap_tableName rq \<noteq> [] \<and> swap_sessionId rq \<noteq> 0
        \<and> single (select_rows store (swap_tableName rq) (\<lambda>r. id_col r = swap_sessionId rq)) = Some session
        \<longrightarrow> ((\<exists>ct bn sn. fst (POST_swap_mentor e store rq) = Swap_Conflict ct bn sn)
              \<longleftrightarrow> (case (swap_swappedMentorId rq, env_schedule_tables e) of
                     (Some cand, Some ts) \<Rightarrow>
                       cand \<noteq> 0
                       \<and> detector_spec store ts (swap_tableName rq) (swap_sessionId rq)
                            (date session) (time session) cand
                   | _ \<Rightarrow> False))"
    using POST_swap_mentor_conflict_iff [of rq store session e]
      conflict_check_spec [of store "env_schedule_tables e" "swap_tableName rq" "swap_sessionId rq"
        session "swap_swappedMentorId rq"]
    by blast
  show "scan_conflicts t tableName sessionId candidate rows \<noteq> None \<longleftrightarrow>
        (\<exists>r \<in> set rows. \<not> (t = tableName \<and> id_col r = sessionId) \<and> busy_spec candidate r)"
    using scan_conflicts_None [of t tableName sessionId candidate rows]
    by (auto simp: is_busy_iff)
  show "mentor_id row = Some candidate \<and> swapped_mentor_id row = Some other \<and> other \<noteq> candidate
        \<longrightarrow> \<not> is_busy candidate row \<and> is_busy candidate (row\<lparr>swapped_mentor_id := None\<rparr>)"
    by (simp add: is_busy_iff busy_spec_def)
  show "candidate \<noteq> 0 \<and> t \<noteq> tableName \<and> date row = date session \<and> time row = time session
        \<and> mentor_id row = Some candidate \<and> swapped_mentor_id row = Some other \<and> other \<noteq> candidate
        \<longrightarrow> conflict_check (store(t \<mapsto> [row])) (Some [t]) tableName sessionId session (Some candidate)
              = None
          \<and> conflict_check (store(t \<mapsto> [row\<lparr>swapped_mentor_id := None\<rparr>])) (Some [t]) tableName
                sessionId session (Some candidate)
              = Some (t, row\<lparr>swapped_mentor_id := None\<rparr>)"
    by (simp add: conflict_check_def select_rows_def is_busy_iff busy_spec_def)
qed

theorem conflict_detector_busy_iff_witness:
  "mentor_id covered_session = Some 7 \<and> swapped_mentor_id covered_session = Some 9
   \<and> (9::int) \<noteq> 7
   \<and> \<not> is_busy 7 covered_session
   \<and> is_busy 7 (covered_session\<lparr>swapped_mentor_id := None\<rparr>)
   \<and> is_busy 9 covered_session
   \<and> detector_spec two_tables [''basic6_0_schedule'', ''adv3_1_schedule''] ''basic6_0_schedule'' 1
        (date plain_session) (time plain_session) 7
   \<and> conflict_check two_tables (Some [''basic6_0_schedule'', ''adv3_1_schedule''])
        ''basic6_0_schedule'' 1 plain_session (Some 7) \<noteq> None
   \<and> \<not> detector_spec covered_tables [''basic6_0_schedule'', ''adv3_1_schedule''] ''basic6_0_schedule'' 1
        (date plain_session) (time plain_session) 7
   \<and> conflict_check covered_tables (Some [''basic6_0_schedule'', ''adv3_1_schedule''])
        ''basic6_0_schedule'' 1 plain_session (Some 7) = None
   \<and> detector_spec covered_tables [''basic6_0_schedule'', ''adv3_1_schedule''] ''basic6_0_schedule'' 1
        (date plain_session) (time plain_session) 9
   \<and> conflict_check covered_tables (Some [''basic6_0_schedule'', ''adv3_1_schedule''])
        ''basic6_0_schedule'' 1 plain_session (Some 9) \<noteq> None"
proof -
  let ?ts = "[''basic6_0_schedule'', ''adv3_1_schedule'']"
  have row: "mentor_id covered_session = Some 7" "swapped_mentor_id covered_session = Some 9"
    by (simp_all add: covered_session_def busy_session_def plain_session_def)
  have free: "\<not> is_busy 7 covered_session \<and> is_busy 7 (covered_session\<lparr>swapped_mentor_id := None\<rparr>)"
    using conflict_detector_busy_iff [of 7 covered_session Map.empty None "[]" 0 plain_session None
        swap_in_7 plain_env "[]" "[]" 9, THEN conjunct2, THEN conjunct2, THEN conjunct2,
        THEN conjunct2, THEN conjunct2, THEN conjunct1] row
    by simp
  have covering: "is_busy 9 covered_session"
    using conflict_detector_busy_iff [of 9 covered_session Map.empty None "[]" 0 plain_session None
        swap_in_7 plain_env "[]" "[]" 0, THEN conjunct1] row
    by (simp add: busy_spec_def)
  have a: "detector_spec two_tables ?ts ''basic6_0_schedule'' 1 (date plain_session) (time plain_session) 7"
    by code_simp
  have b: "\<not> detector_spec covered_tables ?ts ''basic6_0_schedule'' 1 (date plain_session)
      (time plain_session) 7"
    by code_simp
  have c: "detector_spec covered_tables ?ts ''basic6_0_schedule'' 1 (date plain_session)
      (time plain_session) 9"
    by code_simp
  have a': "conflict_check two_tables (Some ?ts) ''basic6_0_schedule'' 1 plain_session (Some 7) \<noteq> None"
    using conflict_detector_busy_iff [of 7 covered_session two_tables "Some ?ts" "''basic6_0_schedule''"
        1 plain_session "Some 7" swap_in_7 plain_env "[]" "[]" 9, THEN conjunct2, THEN conjunct1] a
    by simp
  have b': "conflict_check covered_tables (Some ?ts) ''basic6_0_schedule'' 1 plain_session (Some 7) = None"
    using conflict_detector_busy_iff [of 7 covered_session covered_tables "Some ?ts"
        "''basic6_0_schedule''" 1 plain_session "Some 7" swap_in_7 plain_env "[]" "[]" 9,
        THEN conjunct2, THEN conjunct1] b
    by (cases "conflict_check covered_tables (Some ?ts) ''basic6_0_schedule'' 1 plain_session (Some 7)")
      auto
  have c': "conflict_check covered_tables (Some ?ts) ''basic6_0_schedule'' 1 plain_session (Some 9) \<noteq> None"
    using conflict_detector_busy_iff [of 9 covered_session covered_tables "Some ?ts"
        "''basic6_0_schedule''" 1 plain_session "Some 9" swap_in_7 plain_env "[]" "[]" 7,
        THEN conjunct2, THEN conjunct1] c
    by simp
  have ne: "(9::int) \<noteq> 7" by simp
  from row ne free covering a a' b b' c c' show ?thesis
    by (intro conjI) (simp_all only: simp_thms)
qed

text \<open>
  Claim C1. A swap request for a found session and a truthy candidate, where some listed
  schedule table holds a row at the session's date and time, other than the session itself,
  in which the candidate is busy: the answer is the conflict response (409) naming a listed
  table and a busy row at that date and time, the store is the store of before, no store
  update or any other effect was issued, and the session read back is the session of before.
\<close>

theorem swap_conflict_leaves_session:
  assumes "swap_tableName rq \<noteq> []" and "swap_sessionId rq \<noteq> 0"
    and "single (select_rows store (swap_tableName rq) (\<lambda>r. id_col r = swap_sessionId rq)) = Some session"
    and "swap_swappedMentorId rq = Some candidate" and "candidate \<noteq> 0"
    and "env_schedule_tables e = Some ts" and "t \<in> set ts" and "store t = Some rows"
    and "row \<in> set rows" and "date row = date session" and "time row = time session"
    and "\<not> (t = swap_tableName rq \<and> id_col row = swap_sessionId rq)"
    and "busy_spec candidate row"
  shows "(\<exists>ct c. fst (POST_swap_mentor e store rq)
              = Swap_Conflict ct (batch_name ct)
                  (case subject_name c of None \<Rightarrow> ''Session'' | Some n \<Rightarrow> if n = [] then ''Session'' else n)
            \<and> ct \<in> set ts \<and> (\<exists>rs. store ct = Some rs \<and> c \<in> set rs)
            \<and> date c = date session \<and> time c = time session \<and> busy_spec candidate c)
       \<and> fst (snd (POST_swap_mentor e store rq)) = store
       \<and> snd (snd (POST_swap_mentor e store rq)) = []
       \<and> single (select_rows (fst (snd (POST_swap_mentor e store rq))) (swap_tableName rq)
            (\<lambda>r. id_col r = swap_sessionId rq)) = Some session"
proof -
  have "scan_tables store (swap_tableName rq) (swap_sessionId rq) candidate
          (date session) (time session) ts \<noteq> None"
    using assms(7-13) by (auto simp: scan_tables_None is_busy_iff)
  then obtain ct c where hit: "scan_tables store (swap_tableName rq) (swap_sessionId rq) candidate
          (date session) (time session) ts = Some (ct, c)"
    by auto
  then have check: "conflict_check store (env_schedule_tables e) (swap_tableName rq)
          (swap_sessionId rq) session (swap_swappedMentorId rq) = Some (ct, c)"
    using assms(4-6) by (simp add: conflict_check_def)
  have resp: "POST_swap_mentor e store rq
      = (Swap_Conflict ct (batch_name ct)
           (case subject_name c of None \<Rightarrow> ''Session'' | Some n \<Rightarrow> if n = [] then ''Session'' else n),
         store, [])"
    using assms(1-3) check by (simp add: POST_swap_mentor_def)
  from scan_tables_Some [OF hit]
  have "ct \<in> set ts" "\<exists>rs. store ct = Some rs \<and> c \<in> set rs" "date c = date session"
    "time c = time session" "busy_spec candidate c"
    by (auto simp: is_busy_iff)
  with resp assms(3) show ?thesis
    by auto
qed

theorem swap_conflict_leaves_session_witness:
  "fst (POST_swap_mentor plain_env two_tables swap_in_7)
     = Swap_Conflict ''adv3_1_schedule'' ''Adv 3.1'' ''Trees''
   \<and> fst (snd (POST_swap_mentor plain_env two_tables swap_in_7)) = two_tables
   \<and> snd (snd (POST_swap_mentor plain_env two_tables swap_in_7)) = []
   \<and> single (select_rows (fst (snd (POST_swap_mentor plain_env two_tables swap_in_7)))
        ''basic6_0_schedule'' (\<lambda>r. id_col r = 1)) = Some plain_session
   \<and> swapped_mentor_id plain_session = None"
proof -
  have rq: "swap_tableName swap_in_7 = ''basic6_0_schedule''" "swap_sessionId swap_in_7 = 1"
    "swap_swappedMentorId swap_in_7 = Some 7"
    by (simp_all add: swap_in_7_def)
  have found: "single (select_rows two_tables (swap_tableName swap_in_7)
      (\<lambda>r. id_col r = swap_sessionId swap_in_7)) = Some plain_session"
    by (simp add: rq single_def select_rows_def two_tables_def plain_session_def)
  have tables: "env_schedule_tables plain_env = Some [''basic6_0_schedule'', ''adv3_1_schedule'']"
    by (simp add: plain_env_def)
  have other: "two_tables ''adv3_1_schedule'' = Some [busy_session]"
    by (simp add: two_tables_def)
  have busy: "busy_spec 7 busy_session" "date busy_session = date plain_session"
    "time busy_session = time plain_session"
    by (simp_all add: busy_spec_def busy_session_def plain_session_def)
  have resp: "fst (POST_swap_mentor plain_env two_tables swap_in_7)
     = Swap_Conflict ''adv3_1_schedule'' ''Adv 3.1'' ''Trees''"
    by code_simp
  have "swap_tableName swap_in_7 \<noteq> []" "swap_sessionId swap_in_7 \<noteq> 0" "(7::int) \<noteq> 0"
    "''adv3_1_schedule'' \<in> set [''basic6_0_schedule'', ''adv3_1_schedule'']"
    "busy_session \<in> set [busy_session]"
    "\<not> (''adv3_1_schedule'' = swap_tableName swap_in_7 \<and> id_col busy_session = swap_sessionId swap_in_7)"
    by (simp_all add: rq)
  note frame = swap_conflict_leaves_session [OF this(1,2) found rq(3) this(3) tables this(4) other
      this(5) busy(2,3) this(6) busy(1), THEN conjunct2]
  have none: "swapped_mentor_id plain_session = None"
    by (simp add: plain_session_def)
  from frame found have "fst (snd (POST_swap_mentor plain_env two_tables swap_in_7)) = two_tables"
    and "snd (snd (POST_swap_mentor plain_env two_tables swap_in_7)) = []"
    and "single (select_rows (fst (snd (POST_swap_mentor plain_env two_tables swap_in_7)))
        ''basic6_0_schedule'' (\<lambda>r. id_col r = 1)) = Some plain_session"
    by (simp_all add: rq)
  with resp none show ?thesis
    by simp
qed

section \<open>The session-update handler: the shape of a run\<close>

lemma email_to_events: "snd (email_to e a addr f st) = snd st @ [Email a addr]"
  by (simp add: email_to_def split: send_result.split)

lemma whatsapp_to_events: "snd (whatsapp_to e a phone f st) = snd st @ [WhatsApp a phone]"
  by (simp add: whatsapp_to_def)

lemma notify_students_sends:
  "list_all is_send (snd st) \<Longrightarrow> list_all is_send (snd (notify_students e studs st))"
  by (induction studs arbitrary: st)
    (auto simp: Let_def email_to_events whatsapp_to_events split: option.split)

lemma notify_supermentors_sends:
  "list_all is_send (snd st) \<Longrightarrow> list_all is_send (snd (notify_supermentors e sms st))"
  by (induction sms arbitrary: st)
    (auto simp: Let_def email_to_events whatsapp_to_events split: option.split)

lemma notify_mentor_sends:
  "list_all is_send (snd st) \<Longrightarrow> list_all is_send (snd (notify_mentor e a m f g st))"
  by (auto simp: notify_mentor_def Let_def email_to_events whatsapp_to_events split: option.split)

lemma sendUpdateNotifications_sends:
  "list_all is_send (snd (sendUpdateNotifications e t session ut old new cf))"
  unfolding sendUpdateNotifications_def Let_def
  by (auto split: option.split
      intro!: notify_students_sends notify_supermentors_sends notify_mentor_sends)

lemma sendUpdateNotifications_unresolved:
  "parseCohortFromTableName t = None \<Longrightarrow>
     sendUpdateNotifications e t session ut old new cf = (no_notifications, [])"
  by (simp add: sendUpdateNotifications_def)

lemma create_and_store_events:
  "list_all is_meeting_event (snd (snd (create_and_store e store rq session d tm res)))"
  by (simp add: create_and_store_def Let_def split: create_outcome.split)

lemma reconcile_meeting_events:
  "list_all is_meeting_event (snd (snd (reconcile_meeting e store rq session)))"
  by (simp add: reconcile_meeting_def Let_def create_and_store_events split: option.split)

lemma dispatch_events:
  "snd (dispatch e rq session) =
     (if shouldSendNotifications rq session
      then Dispatch_Started # snd (sendUpdateNotifications e (req_tableName rq) session
             (updateType_of (req_changedField rq))
             (or_id (req_oldMentorId rq)
                (if req_changedField rq = ''mentor_id'' \<or> req_changedField rq = ''swapped_mentor_id''
                 then req_oldValue rq else None))
             (or_id (req_newMentorId rq)
                (if req_changedField rq = ''mentor_id'' \<or> req_changedField rq = ''swapped_mentor_id''
                 then req_newValue rq else None))
             (req_changedField rq))
      else [])"
  by (simp add: dispatch_def Let_def)

lemma reset_flags_events:
  "snd (reset_flags e store rq session) =
     (if email_sent session = Some True \<or> whatsapp_sent session = Some True then [Flags_Reset] else [])"
  by (simp add: reset_flags_def)

lemma POST_session_update_found:
  assumes "req_tableName rq \<noteq> []" and "req_sessionId rq \<noteq> 0"
    and "single (select_rows store (req_tableName rq) (\<lambda>r. id_col r = req_sessionId rq)) = Some session"
  shows "POST_session_update e store rq =
     (Update_Success ((fst (reconcile_meeting e store rq session))
          \<lparr>notificationsSent := fst (dispatch e rq session)\<rparr>),
      fst (reset_flags e (fst (snd (reconcile_meeting e store rq session))) rq session),
      snd (snd (reconcile_meeting e store rq session)) @ snd (dispatch e rq session)
        @ snd (reset_flags e (fst (snd (reconcile_meeting e store rq session))) rq session))"
  using assms by (simp add: POST_session_update_def Let_def)

lemma meeting_event_kinds:
  "is_meeting_event ev \<Longrightarrow> ev \<noteq> Dispatch_Started \<and> ev \<noteq> Flags_Reset \<and> \<not> is_send ev"
  by (cases ev) auto


lemma write_link_row:
  assumes "single (select_rows store (req_tableName rq) (\<lambda>r. id_col r = req_sessionId rq)) = Some session"
  shows "single (select_rows (write_link e store rq v) (req_tableName rq)
            (\<lambda>r. id_col r = req_sessionId rq))
         = Some (if env_link_write_ok e then session\<lparr>teams_meeting_link := v\<rparr> else session)"
proof (cases "env_link_write_ok e")
  case True
  have "single (select_rows (update_rows store (req_tableName rq) (\<lambda>r. id_col r = req_sessionId rq)
          (\<lambda>row. row\<lparr>teams_meeting_link := v\<rparr>)) (req_tableName rq)
          (\<lambda>r. id_col r = req_sessionId rq)) = Some (session\<lparr>teams_meeting_link := v\<rparr>)"
    by (rule single_update_rows [OF _ assms]) simp
  with True show ?thesis by (simp add: write_link_def)
next
  case False
  with assms show ?thesis by (simp add: write_link_def)
qed

lemma create_and_store_store:
  "fst (snd (create_and_store e store rq session d tm res)) = store
   \<or> (\<exists>v. fst (snd (create_and_store e store rq session d tm res)) = write_link e store rq v)"
  by (auto simp: create_and_store_def Let_def split: create_outcome.split)

lemma reconcile_meeting_store:
  "fst (snd (reconcile_meeting e store rq session)) = store
   \<or> (\<exists>v. fst (snd (reconcile_meeting e store rq session)) = write_link e store rq v)"
  using create_and_store_store
  by (auto simp: reconcile_meeting_def Let_def split: option.split)

lemma sendUpdateNotifications_only_sends:
  "ev \<in> set (snd (sendUpdateNotifications e t session ut old new cf)) \<Longrightarrow> is_send ev"
  using sendUpdateNotifications_sends [of e t session ut old new cf]
  by (simp add: list_all_iff)

lemma dispatch_no_reset: "Flags_Reset \<notin> set (snd (dispatch e rq session))"
  by (auto simp: dispatch_events dest!: sendUpdateNotifications_only_sends)




lemma POST_session_update_rejected:
  assumes "req_tableName rq = [] \<or> req_sessionId rq = 0
    \<or> single (select_rows store (req_tableName rq) (\<lambda>r. id_col r = req_sessionId rq)) = None"
  shows "fst (snd (POST_session_update e store rq)) = store"
    and "snd (snd (POST_session_update e store rq)) = []"
  using assms by (auto simp: POST_session_update_def)

lemma reconcile_meeting_row_flags:
  assumes "single (select_rows store (req_tableName rq) (\<lambda>r. id_col r = req_sessionId rq)) = Some session"
  shows "\<exists>s1. single (select_rows (fst (snd (reconcile_meeting e store rq session)))
            (req_tableName rq) (\<lambda>r. id_col r = req_sessionId rq)) = Some s1
          \<and> email_sent s1 = email_sent session \<and> whatsapp_sent s1 = whatsapp_sent session"
  using reconcile_meeting_store [of e store rq session] write_link_row [OF assms, of e] assms
  by auto

lemma conflict_check_falsy:
  "\<not> truthy_id swappedMentorId \<Longrightarrow>
     conflict_check store tables tableName sessionId session swappedMentorId = None"
  by (simp add: conflict_check_def truthy_id_def split: option.splits)

lemma swap_removal_run:
  assumes "swap_tableName sq \<noteq> []" and "swap_sessionId sq \<noteq> 0"
    and "single (select_rows store (swap_tableName sq) (\<lambda>r. id_col r = swap_sessionId sq)) = Some session"
    and "\<not> truthy_id (swap_swappedMentorId sq)" and "env_mentor_write_ok e"
  shows "POST_swap_mentor e store sq =
     (Swap_Success None,
      update_rows store (swap_tableName sq) (\<lambda>r. id_col r = swap_sessionId sq)
        (\<lambda>row. row\<lparr>swapped_mentor_id := None\<rparr>),
      [Mentor_Write None])"
  using assms by (simp add: POST_swap_mentor_def conflict_check_falsy)

section \<open>Facts about the concrete sessions\<close>

lemma reschedule_request_fields:
  "req_tableName (reschedule_request t) = t" "req_sessionId (reschedule_request t) = 1"
  "req_changedField (reschedule_request t) = ''date''"
  by (simp_all add: reschedule_request_def)

lemma one_table_found:
  "single (select_rows one_table ''basic6_0_schedule'' (\<lambda>r. id_col r = 1)) = Some plain_session"
  by (simp add: single_def select_rows_def one_table_def plain_session_def)

lemma meeting_table_found:
  "single (select_rows meeting_table ''basic6_0_schedule'' (\<lambda>r. id_col r = 1)) = Some meeting_session"
  by (simp add: single_def select_rows_def meeting_table_def meeting_session_def
      announced_session_def plain_session_def)

lemma fixture_flags:
  "email_sent plain_session = Some False" "whatsapp_sent plain_session = Some False"
  "email_sent meeting_session = Some True" "whatsapp_sent meeting_session = Some True"
  "email_sent announced_session = Some True" "whatsapp_sent announced_session = Some True"
  by (simp_all add: meeting_session_def announced_session_def plain_session_def)


lemma misc_table_found:
  "single (select_rows misc_table ''misc_schedule'' (\<lambda>r. id_col r = 1)) = Some announced_session"
  by (simp add: single_def select_rows_def misc_table_def announced_session_def plain_session_def)

lemma covered_announced_table_found:
  "single (select_rows covered_announced_table ''basic6_0_schedule'' (\<lambda>r. id_col r = 1))
     = Some covered_announced"
  by (simp add: single_def select_rows_def covered_announced_table_def covered_announced_def
      announced_session_def plain_session_def)

section \<open>The session-update handler: gate and flags\<close>



section \<open>Resetting the notification flags\<close>

text \<open>
  Two changes of an announced session after which the flags are still true. Removing the
  cover of a covered session through the swap handler: the handler clears
  \<open>swapped_mentor_id\<close>, does not call the session-update handler (it does so only when a
  mentor is swapped in) and answers with success. A reschedule through the session-update
  handler when the store rejects the update of the flags: the rejection is logged and the
  handler answers with success.
\<close>

theorem flags_reset_counterexample:
  "email_sent covered_announced = Some True \<and> whatsapp_sent covered_announced = Some True
   \<and> single (select_rows covered_announced_table ''basic6_0_schedule'' (\<lambda>r. id_col r = 1))
       = Some covered_announced
   \<and> fst (POST_swap_mentor staffed_env covered_announced_table swap_removal) = Swap_Success None
   \<and> snd (snd (POST_swap_mentor staffed_env covered_announced_table swap_removal)) = [Mentor_Write None]
   \<and> map_option (\<lambda>row. (swapped_mentor_id row, email_sent row, whatsapp_sent row))
        (single (select_rows (fst (snd (POST_swap_mentor staffed_env covered_announced_table swap_removal)))
           ''basic6_0_schedule'' (\<lambda>r. id_col r = 1)))
       = Some (None, Some True, Some True)
   \<and> email_sent meeting_session = Some True
   \<and> single (select_rows meeting_table ''basic6_0_schedule'' (\<lambda>r. id_col r = 1)) = Some meeting_session
   \<and> env_flags_write_ok rejecting_env = False
   \<and> (case fst (POST_session_update rejecting_env meeting_table (reschedule_request ''basic6_0_schedule''))
        of Update_Success results \<Rightarrow> True | _ \<Rightarrow> False)
   \<and> map_option (\<lambda>row. (email_sent row, whatsapp_sent row))
        (single (select_rows
           (fst (snd (POST_session_update rejecting_env meeting_table
              (reschedule_request ''basic6_0_schedule''))))
           ''basic6_0_schedule'' (\<lambda>r. id_col r = 1)))
       = Some (Some True, Some True)"
proof -
  have a: "email_sent covered_announced = Some True" "whatsapp_sent covered_announced = Some True"
    by (simp_all add: covered_announced_def announced_session_def)
  have b: "fst (POST_swap_mentor staffed_env covered_announced_table swap_removal) = Swap_Success None"
    by code_simp
  have c: "snd (snd (POST_swap_mentor staffed_env covered_announced_table swap_removal))
      = [Mentor_Write None]"
    by code_simp
  have d: "map_option (\<lambda>row. (swapped_mentor_id row, email_sent row, whatsapp_sent row))
        (single (select_rows (fst (snd (POST_swap_mentor staffed_env covered_announced_table swap_removal)))
           ''basic6_0_schedule'' (\<lambda>r. id_col r = 1)))
       = Some (None, Some True, Some True)"
    by code_simp
  have e: "env_flags_write_ok rejecting_env = False"
    by (simp add: rejecting_env_def)
  have f: "case fst (POST_session_update rejecting_env meeting_table (reschedule_request ''basic6_0_schedule''))
        of Update_Success results \<Rightarrow> True | _ \<Rightarrow> False"
    by code_simp
  have g: "map_option (\<lambda>row. (email_sent row, whatsapp_sent row))
        (single (select_rows
           (fst (snd (POST_session_update rejecting_env meeting_table
              (reschedule_request ''basic6_0_schedule''))))
           ''basic6_0_schedule'' (\<lambda>r. id_col r = 1)))
       = Some (Some True, Some True)"
    by code_simp
  from a covered_announced_table_found b c d fixture_flags(3) meeting_table_found e f g
  show ?thesis
    by (intro conjI)
qed

text \<open>
  Claim C3, as amended. For a request to the session-update handler that finds its session
  with \<open>email_sent\<close> or \<open>whatsapp_sent\<close> true, in any environment (whatever the dispatch
  does, also when it is skipped or contacts nobody): the handler answers with success, the
  flag update is the last effect of the run and happens once, so every notification comes
  before it; the session read back afterwards has both flags false when the store accepts
  that update, and the flags of before when the store rejects it. A swap removal through the
  swap handler does not reach the session-update handler: its only effect is the update of
  \<open>swapped_mentor_id\<close> to null, and the session read back differs from the one of before in
  that column only, so the flags stay as they were.
\<close>

theorem flags_reset_when_orchestrated:
  "(req_tableName rq \<noteq> [] \<and> req_sessionId rq \<noteq> 0
      \<and> single (select_rows store (req_tableName rq) (\<lambda>r. id_col r = req_sessionId rq)) = Some session
      \<and> (email_sent session = Some True \<or> whatsapp_sent session = Some True)
    \<longrightarrow> (\<exists>after. single (select_rows (fst (snd (POST_session_update e store rq)))
                (req_tableName rq) (\<lambda>r. id_col r = req_sessionId rq)) = Some after
              \<and> (env_flags_write_ok e
                    \<longrightarrow> email_sent after = Some False \<and> whatsapp_sent after = Some False)
              \<and> (\<not> env_flags_write_ok e
                    \<longrightarrow> email_sent after = email_sent session
                        \<and> whatsapp_sent after = whatsapp_sent session))
        \<and> (\<exists>before. snd (snd (POST_session_update e store rq)) = before @ [Flags_Reset]
              \<and> Flags_Reset \<notin> set before)
        \<and> (\<exists>results. fst (POST_session_update e store rq) = Update_Success results))
   \<and> (swap_tableName sq \<noteq> [] \<and> swap_sessionId sq \<noteq> 0
      \<and> single (select_rows store (swap_tableName sq) (\<lambda>r. id_col r = swap_sessionId sq)) = Some session
      \<and> \<not> truthy_id (swap_swappedMentorId sq) \<and> env_mentor_write_ok e
    \<longrightarrow> fst (POST_swap_mentor e store sq) = Swap_Success None
        \<and> snd (snd (POST_swap_mentor e store sq)) = [Mentor_Write None]
        \<and> single (select_rows (fst (snd (POST_swap_mentor e store sq)))
              (swap_tableName sq) (\<lambda>r. id_col r = swap_sessionId sq))
            = Some (session\<lparr>swapped_mentor_id := None\<rparr>))"
proof (intro conjI impI)
  assume A: "req_tableName rq \<noteq> [] \<and> req_sessionId rq \<noteq> 0
      \<and> single (select_rows store (req_tableName rq) (\<lambda>r. id_col r = req_sessionId rq)) = Some session
      \<and> (email_sent session = Some True \<or> whatsapp_sent session = Some True)"
  then have v: "req_tableName rq \<noteq> []" "req_sessionId rq \<noteq> 0"
    and f: "single (select_rows store (req_tableName rq) (\<lambda>r. id_col r = req_sessionId rq)) = Some session"
    and flags: "email_sent session = Some True \<or> whatsapp_sent session = Some True"
    by simp_all
  let ?t = "req_tableName rq"
  let ?key = "\<lambda>r. id_col r = req_sessionId rq"
  let ?store1 = "fst (snd (reconcile_meeting e store rq session))"
  let ?patch = "\<lambda>row. row\<lparr>email_sent := Some False, whatsapp_sent := Some False\<rparr>"
  from reconcile_meeting_row_flags [OF f, of e]
  obtain s1 where s1: "single (select_rows ?store1 ?t ?key) = Some s1"
    and same: "email_sent s1 = email_sent session" "whatsapp_sent s1 = whatsapp_sent session"
    by blast
  have patched: "single (select_rows (update_rows ?store1 ?t ?key ?patch) ?t ?key) = Some (?patch s1)"
    by (rule single_update_rows [OF _ s1]) simp
  have final: "fst (snd (POST_session_update e store rq))
      = (if env_flags_write_ok e then update_rows ?store1 ?t ?key ?patch else ?store1)"
    using flags by (auto simp: POST_session_update_found [OF v f] reset_flags_def)
  show "\<exists>after. single (select_rows (fst (snd (POST_session_update e store rq))) ?t ?key) = Some after
              \<and> (env_flags_write_ok e
                    \<longrightarrow> email_sent after = Some False \<and> whatsapp_sent after = Some False)
              \<and> (\<not> env_flags_write_ok e
                    \<longrightarrow> email_sent after = email_sent session
                        \<and> whatsapp_sent after = whatsapp_sent session)"
  proof (cases "env_flags_write_ok e")
    case True
    with final patched show ?thesis by simp
  next
    case False
    with final s1 same show ?thesis by simp
  qed
  let ?before = "snd (snd (reconcile_meeting e store rq session)) @ snd (dispatch e rq session)"
  have M: "Flags_Reset \<notin> set (snd (snd (reconcile_meeting e store rq session)))"
    using reconcile_meeting_events [of e store rq session] meeting_event_kinds
    by (auto simp: list_all_iff)
  have D: "Flags_Reset \<notin> set (snd (dispatch e rq session))"
    by (rule dispatch_no_reset)
  have "snd (snd (POST_session_update e store rq)) = ?before @ [Flags_Reset]"
    using flags by (auto simp: POST_session_update_found [OF v f] reset_flags_events)
  moreover have "Flags_Reset \<notin> set ?before"
    using M D by simp
  ultimately show "\<exists>before. snd (snd (POST_session_update e store rq)) = before @ [Flags_Reset]
            \<and> Flags_Reset \<notin> set before"
    by blast
  show "\<exists>results. fst (POST_session_update e store rq) = Update_Success results"
    by (simp add: POST_session_update_found [OF v f])
next
  assume B: "swap_tableName sq \<noteq> [] \<and> swap_sessionId sq \<noteq> 0
      \<and> single (select_rows store (swap_tableName sq) (\<lambda>r. id_col r = swap_sessionId sq)) = Some session
      \<and> \<not> truthy_id (swap_swappedMentorId sq) \<and> env_mentor_write_ok e"
  then have f: "single (select_rows store (swap_tableName sq) (\<lambda>r. id_col r = swap_sessionId sq))
      = Some session"
    by simp
  have run: "POST_swap_mentor e store sq =
     (Swap_Success None,
      update_rows store (swap_tableName sq) (\<lambda>r. id_col r = swap_sessionId sq)
        (\<lambda>row. row\<lparr>swapped_mentor_id := None\<rparr>),
      [Mentor_Write None])"
    using B by (intro swap_removal_run) simp_all
  show "fst (POST_swap_mentor e store sq) = Swap_Success None"
    by (simp add: run)
  show "snd (snd (POST_swap_mentor e store sq)) = [Mentor_Write None]"
    by (simp add: run)
  have "single (select_rows (update_rows store (swap_tableName sq) (\<lambda>r. id_col r = swap_sessionId sq)
        (\<lambda>row. row\<lparr>swapped_mentor_id := None\<rparr>)) (swap_tableName sq)
        (\<lambda>r. id_col r = swap_sessionId sq)) = Some (session\<lparr>swapped_mentor_id := None\<rparr>)"
    by (rule single_update_rows [OF _ f]) simp
  then show "single (select_rows (fst (snd (POST_swap_mentor e store sq)))
              (swap_tableName sq) (\<lambda>r. id_col r = swap_sessionId sq))
            = Some (session\<lparr>swapped_mentor_id := None\<rparr>)"
    by (simp add: run)
qed

theorem flags_reset_when_orchestrated_witness:
  "single (select_rows meeting_table ''basic6_0_schedule'' (\<lambda>r. id_col r = 1)) = Some meeting_session
   \<and> email_sent meeting_session = Some True \<and> env_flags_write_ok staffed_env
   \<and> map_option email_sent (single (select_rows
        (fst (snd (POST_session_update staffed_env meeting_table (reschedule_request ''basic6_0_schedule''))))
        ''basic6_0_schedule'' (\<lambda>r. id_col r = 1))) = Some (Some False)
   \<and> map_option whatsapp_sent (single (select_rows
        (fst (snd (POST_session_update staffed_env meeting_table (reschedule_request ''basic6_0_schedule''))))
        ''basic6_0_schedule'' (\<lambda>r. id_col r = 1))) = Some (Some False)
   \<and> last (snd (snd (POST_session_update staffed_env meeting_table
        (reschedule_request ''basic6_0_schedule'')))) = Flags_Reset
   \<and> single (select_rows covered_announced_table ''basic6_0_schedule'' (\<lambda>r. id_col r = 1))
       = Some covered_announced
   \<and> \<not> truthy_id (swap_swappedMentorId swap_removal) \<and> env_mentor_write_ok staffed_env
   \<and> single (select_rows (fst (snd (POST_swap_mentor staffed_env covered_announced_table swap_removal)))
        ''basic6_0_schedule'' (\<lambda>r. id_col r = 1))
       = Some (covered_announced\<lparr>swapped_mentor_id := None\<rparr>)"
proof -
  let ?rq = "reschedule_request ''basic6_0_schedule''"
  have v: "req_tableName ?rq \<noteq> []" "req_sessionId ?rq \<noteq> 0"
    by (simp_all add: reschedule_request_fields)
  have f: "single (select_rows meeting_table (req_tableName ?rq) (\<lambda>r. id_col r = req_sessionId ?rq))
      = Some meeting_session"
    by (simp add: reschedule_request_fields meeting_table_found)
  have flags: "email_sent meeting_session = Some True \<or> whatsapp_sent meeting_session = Some True"
    by (simp add: fixture_flags)
  have ok: "env_flags_write_ok staffed_env" "env_mentor_write_ok staffed_env"
    by (simp_all add: staffed_env_def plain_env_def)
  from flags_reset_when_orchestrated [of ?rq meeting_table meeting_session staffed_env swap_in_7,
      THEN conjunct1, rule_format] v f flags
  obtain after before where
    "single (select_rows (fst (snd (POST_session_update staffed_env meeting_table ?rq)))
        ''basic6_0_schedule'' (\<lambda>r. id_col r = 1)) = Some after"
    "email_sent after = Some False" "whatsapp_sent after = Some False"
    "snd (snd (POST_session_update staffed_env meeting_table ?rq)) = before @ [Flags_Reset]"
    using ok by (auto simp: reschedule_request_fields)
  then have one: "map_option email_sent (single (select_rows
        (fst (snd (POST_session_update staffed_env meeting_table ?rq)))
        ''basic6_0_schedule'' (\<lambda>r. id_col r = 1))) = Some (Some False)"
    "map_option whatsapp_sent (single (select_rows
        (fst (snd (POST_session_update staffed_env meeting_table ?rq)))
        ''basic6_0_schedule'' (\<lambda>r. id_col r = 1))) = Some (Some False)"
    "last (snd (snd (POST_session_update staffed_env meeting_table ?rq))) = Flags_Reset"
    by simp_all
  have sq: "swap_tableName swap_removal = ''basic6_0_schedule''" "swap_sessionId swap_removal = 1"
    "\<not> truthy_id (swap_swappedMentorId swap_removal)"
    by (simp_all add: swap_removal_def truthy_id_def)
  have g: "single (select_rows covered_announced_table (swap_tableName swap_removal)
      (\<lambda>r. id_col r = swap_sessionId swap_removal)) = Some covered_announced"
    by (simp add: sq covered_announced_table_found)
  from flags_reset_when_orchestrated [of ?rq covered_announced_table covered_announced staffed_env
      swap_removal, THEN conjunct2, rule_format] sq g ok
  have two: "single (select_rows (fst (snd (POST_swap_mentor staffed_env covered_announced_table
        swap_removal))) ''basic6_0_schedule'' (\<lambda>r. id_col r = 1))
       = Some (covered_announced\<lparr>swapped_mentor_id := None\<rparr>)"
    by simp
  from meeting_table_found fixture_flags(3) ok one covered_announced_table_found sq(3) two
  show ?thesis
    by (intro conjI)
qed

section \<open>The session-update handler: contest sessions\<close>




section \<open>The session-update handler: unresolved cohorts\<close>

text \<open>
  An announced session in the table \<open>misc_schedule\<close>, whose name names no cohort, with a
  mentor and an administrator who have email addresses: the run of a reschedule calls
  \<open>sendUpdateNotifications\<close> and resets the flags, and nobody is written to, the mentor and
  the administrator included. The same request on \<open>basic6_0_schedule\<close> reaches the student,
  the mentor and the administrator. The name \<open>basic6_0\<close> does not have the form
  \<open><cohortType><major>_<minor>_schedule\<close> and still resolves to a cohort.
\<close>

theorem unresolved_cohort_counterexample:
  "match_schedule_table ''misc_schedule'' = None
   \<and> parseCohortFromTableName ''misc_schedule'' = None
   \<and> single (select_rows misc_table ''misc_schedule'' (\<lambda>r. id_col r = 1)) = Some announced_session
   \<and> map_option mentor_email (env_mentor staffed_env 3) = Some (Some ''ravi@example.org'')
   \<and> map_option (map supermentor_email) (env_supermentors staffed_env)
        = Some [Some ''admin@example.org'']
   \<and> snd (snd (POST_session_update staffed_env misc_table (reschedule_request ''misc_schedule'')))
        = [Dispatch_Started, Flags_Reset]
   \<and> snd (snd (POST_session_update staffed_env meeting_table (reschedule_request ''basic6_0_schedule'')))
        = [Delete_Meeting ''https://teams.example/old'',
           Create_Meeting ''Cohort Basic 6.0 - Graphs'' ''2024-02-03T23:00:00''
             ''2024-02-03T00:30:00'' [''ravi@example.org'', ''asha@example.org''],
           Link_Write (Some ''https://teams.example/new''), Dispatch_Started,
           Email Student ''asha@example.org'', WhatsApp Student ''919876543210'',
           Email CurrentMentor ''ravi@example.org'', WhatsApp CurrentMentor ''919876500003'',
           Email Supermentor ''admin@example.org'', WhatsApp Supermentor ''919876500000'',
           Flags_Reset]
   \<and> match_schedule_table ''basic6_0'' = None
   \<and> parseCohortFromTableName ''basic6_0'' = Some (''Basic'', ''6.0'')"
proof -
  have a: "match_schedule_table ''misc_schedule'' = None" by code_simp
  have b: "parseCohortFromTableName ''misc_schedule'' = None" by code_simp
  have c: "map_option mentor_email (env_mentor staffed_env 3) = Some (Some ''ravi@example.org'')"
    by code_simp
  have d: "map_option (map supermentor_email) (env_supermentors staffed_env)
        = Some [Some ''admin@example.org'']"
    by code_simp
  have e: "snd (snd (POST_session_update staffed_env misc_table (reschedule_request ''misc_schedule'')))
        = [Dispatch_Started, Flags_Reset]"
    by code_simp
  have f: "snd (snd (POST_session_update staffed_env meeting_table (reschedule_request ''basic6_0_schedule'')))
        = [Delete_Meeting ''https://teams.example/old'',
           Create_Meeting ''Cohort Basic 6.0 - Graphs'' ''2024-02-03T23:00:00''
             ''2024-02-03T00:30:00'' [''ravi@example.org'', ''asha@example.org''],
           Link_Write (Some ''https://teams.example/new''), Dispatch_Started,
           Email Student ''asha@example.org'', WhatsApp Student ''919876543210'',
           Email CurrentMentor ''ravi@example.org'', WhatsApp CurrentMentor ''919876500003'',
           Email Supermentor ''admin@example.org'', WhatsApp Supermentor ''919876500000'',
           Flags_Reset]"
    by code_simp
  have g: "match_schedule_table ''basic6_0'' = None" by code_simp
  have h: "parseCohortFromTableName ''basic6_0'' = Some (''Basic'', ''6.0'')" by code_simp
  from a b misc_table_found c d e f g h show ?thesis
    by (intro conjI)
qed

text \<open>
  Claim C8, as amended. For a session-update request that finds its session and whose table
  name \<open>parseCohortFromTableName\<close> does not resolve, \<open>sendUpdateNotifications\<close> returns its
  empty result before any lookup or send: no email and no WhatsApp message goes to anybody,
  students, mentors and administrators alike, and the response reports that nothing was sent.
\<close>

theorem unresolved_cohort_blocks_all:
  assumes "req_tableName rq \<noteq> []" and "req_sessionId rq \<noteq> 0"
    and "single (select_rows store (req_tableName rq) (\<lambda>r. id_col r = req_sessionId rq)) = Some session"
    and "parseCohortFromTableName (req_tableName rq) = None"
  shows "sendUpdateNotifications e (req_tableName rq) s updateType oldMentorId newMentorId changedField
           = (no_notifications, [])
       \<and> list_all (\<lambda>ev. \<not> is_send ev) (snd (snd (POST_session_update e store rq)))
       \<and> (\<exists>results. fst (POST_session_update e store rq) = Update_Success results
             \<and> notificationsSent results = no_notifications)"
proof -
  have M: "\<forall>ev \<in> set (snd (snd (reconcile_meeting e store rq session))). \<not> is_send ev"
    using reconcile_meeting_events [of e store rq session] meeting_event_kinds
    by (auto simp: list_all_iff)
  have D: "dispatch e rq session
      = (no_notifications, if shouldSendNotifications rq session then [Dispatch_Started] else [])"
    by (simp add: dispatch_def Let_def sendUpdateNotifications_unresolved [OF assms(4)])
  show ?thesis
    using M by (auto simp: POST_session_update_found [OF assms(1-3)] D reset_flags_events
        sendUpdateNotifications_unresolved [OF assms(4)] list_all_iff)
qed

theorem unresolved_cohort_blocks_all_witness:
  "single (select_rows misc_table ''misc_schedule'' (\<lambda>r. id_col r = 1)) = Some announced_session
   \<and> parseCohortFromTableName ''misc_schedule'' = None
   \<and> list_all (\<lambda>ev. \<not> is_send ev)
        (snd (snd (POST_session_update staffed_env misc_table (reschedule_request ''misc_schedule''))))
   \<and> sendUpdateNotifications staffed_env ''misc_schedule'' announced_session Reschedule None None ''date''
        = (no_notifications, [])"
proof -
  let ?rq = "reschedule_request ''misc_schedule''"
  have v: "req_tableName ?rq \<noteq> []" "req_sessionId ?rq \<noteq> 0"
    by (simp_all add: reschedule_request_fields)
  have f: "single (select_rows misc_table (req_tableName ?rq) (\<lambda>r. id_col r = req_sessionId ?rq))
      = Some announced_session"
    by (simp add: reschedule_request_fields misc_table_found)
  have p: "parseCohortFromTableName ''misc_schedule'' = None"
    by code_simp
  then have p': "parseCohortFromTableName (req_tableName ?rq) = None"
    by (simp add: reschedule_request_fields)
  from unresolved_cohort_blocks_all [OF v f p', of staffed_env announced_session Reschedule None None
      "''date''"]
  show ?thesis
    using p by (simp add: reschedule_request_fields misc_table_found)
qed

section \<open>A swap before the announcement\<close>

text \<open>
  Claim C5 at a concrete request. Session 1 of \<open>basic6_0_schedule\<close> has \<open>email_sent\<close> and
  \<open>whatsapp_sent\<close> false; mentor 7 is swapped in, nobody is busy. The swap handler updates
  the row and calls the session-update handler with \<open>changedField = swapped_mentor_id\<close>; the
  update type is \<open>details_updated\<close>, the gate is open because of the swap, and the loop over
  the students runs: the student receives an email and a WhatsApp message, and the response
  counts one student email.
\<close>

theorem swap_before_announcement_reaches_students:
  "single (select_rows one_table ''basic6_0_schedule'' (\<lambda>r. id_col r = 1)) = Some plain_session
   \<and> email_sent plain_session = Some False \<and> whatsapp_sent plain_session = Some False
   \<and> swap_in_7 = \<lparr>swap_tableName = ''basic6_0_schedule'', swap_sessionId = 1,
                    swap_swappedMentorId = Some 7\<rparr>
   \<and> snd (snd (POST_swap_mentor staffed_env one_table swap_in_7))
        = [Mentor_Write (Some 7), Dispatch_Started,
           Email Student ''asha@example.org'', WhatsApp Student ''919876543210'',
           Email OriginalMentor ''ravi@example.org'', WhatsApp OriginalMentor ''919876500003'',
           Email SwappedMentor ''meera@example.org'', WhatsApp SwappedMentor ''919876500007'',
           Email OldSwappedMentor ''ravi@example.org'', WhatsApp OldSwappedMentor ''919876500003'',
           Email Supermentor ''admin@example.org'', WhatsApp Supermentor ''919876500000'']
   \<and> list_ex to_student (snd (snd (POST_swap_mentor staffed_env one_table swap_in_7)))
   \<and> map_option (\<lambda>results. studentsSent (notificationsSent results))
        (case fst (POST_swap_mentor staffed_env one_table swap_in_7) of
           Swap_Success results \<Rightarrow> results | _ \<Rightarrow> None) = Some 1"
proof -
  have a: "snd (snd (POST_swap_mentor staffed_env one_table swap_in_7))
        = [Mentor_Write (Some 7), Dispatch_Started,
           Email Student ''asha@example.org'', WhatsApp Student ''919876543210'',
           Email OriginalMentor ''ravi@example.org'', WhatsApp OriginalMentor ''919876500003'',
           Email SwappedMentor ''meera@example.org'', WhatsApp SwappedMentor ''919876500007'',
           Email OldSwappedMentor ''ravi@example.org'', WhatsApp OldSwappedMentor ''919876500003'',
           Email Supermentor ''admin@example.org'', WhatsApp Supermentor ''919876500000'']"
    by code_simp
  have b: "list_ex to_student (snd (snd (POST_swap_mentor staffed_env one_table swap_in_7)))"
    unfolding a by simp
  have c: "map_option (\<lambda>results. studentsSent (notificationsSent results))
        (case fst (POST_swap_mentor staffed_env one_table swap_in_7) of
           Swap_Success results \<Rightarrow> results | _ \<Rightarrow> None) = Some 1"
    by code_simp
  from one_table_found fixture_flags(1,2) swap_in_7_def a b c show ?thesis
    by (intro conjI)
qed

section \<open>The meeting window\<close>

text \<open>
  The window in general, for a date text without \<open>T\<close> and a clock text \<open>HH:MM\<close> that is
  \<open>n\<close> minutes after midnight: start and end carry the same date, the start reads \<open>n\<close>
  and the end reads \<open>(n + 90) mod 1440\<close> minutes after midnight. So the end is 90 minutes after
  the start exactly for the starts before 22:30. The swap handler of unnamed/part_001 adds 60
  minutes to the instant of the start.
\<close>

lemma digit_val_nth: "k < 10 \<Longrightarrow> digit_val (''0123456789'' ! k) = Some k"
proof -
  assume "k < 10"
  then have "k \<in> {0, 1, 2, 3, 4, 5, 6, 7, 8, 9}" by auto
  then show ?thesis
    by (auto simp: digit_val_def is_digit_def)
qed

lemma parse_2digits_pad2:
  "k < 100 \<Longrightarrow> parse_2digits (pad2 k ! 0) (pad2 k ! 1) = Some k"
proof -
  assume "k < 100"
  then have "k div 10 < 10" by simp
  then have "digit_val (''0123456789'' ! (k div 10 mod 10)) = Some (k div 10)"
    using digit_val_nth [of "k div 10"] by simp
  moreover have "digit_val (''0123456789'' ! (k mod 10)) = Some (k mod 10)"
    by (rule digit_val_nth) simp
  ultimately show ?thesis
    by (simp add: parse_2digits_def pad2_def)
qed

lemma pad2_shape: "pad2 k = [pad2 k ! 0, pad2 k ! 1]"
  by (simp add: pad2_def)

lemma parse_clock_time_string:
  "parse_clock (take 5 (time_string n)) = Some (n mod 1440)"
proof -
  let ?h = "(n div 60) mod 24" and ?m = "n mod 60"
  have h: "parse_2digits (pad2 ?h ! 0) (pad2 ?h ! 1) = Some ?h"
    by (rule parse_2digits_pad2) simp
  have m: "parse_2digits (pad2 ?m ! 0) (pad2 ?m ! 1) = Some ?m"
    by (rule parse_2digits_pad2) simp
  have "take 5 (time_string n) = [pad2 ?h ! 0, pad2 ?h ! 1, CHR '':'', pad2 ?m ! 0, pad2 ?m ! 1]"
    unfolding time_string_def
    by (subst pad2_shape [of ?h], subst pad2_shape [of ?m]) simp
  moreover have "60 * ?h + ?m = n mod 1440"
    using mod_mult2_eq [of n 60 24] by simp
  ultimately show ?thesis
    using h m by (simp add: parse_clock_def)
qed


lemma parse_clock_length: "parse_clock t = Some n \<Longrightarrow> length t = 5"
  by (auto simp: parse_clock_def split: list.splits if_splits)

lemma parse_time_text_clock: "parse_clock t = Some n \<Longrightarrow> parse_time_text (t @ '':00'') = Some n"
proof -
  assume t: "parse_clock t = Some n"
  then have len: "length t = 5" by (rule parse_clock_length)
  have n: "n \<le> 1440"
    using t by (auto simp: parse_clock_def split: list.splits if_splits option.splits)
  have zero: "parse_2digits CHR ''0'' CHR ''0'' = Some 0"
    by (simp add: parse_2digits_def digit_val_def is_digit_def)
  show ?thesis
    using t len n zero by (simp add: parse_time_text_def nth_append)
qed

lemma window_of_text:
  assumes "CHR ''T'' \<notin> set d"
  shows "window_date (d @ ''T'' @ rest) = d"
    and "window_minutes (d @ ''T'' @ rest) = parse_clock (take 5 rest)"
proof -
  have "takeWhile (\<lambda>c. c \<noteq> CHR ''T'') (d @ CHR ''T'' # rest) = d"
    using assms by (induction d) auto
  then show "window_date (d @ ''T'' @ rest) = d"
    by (simp add: window_date_def)
  have "dropWhile (\<lambda>c. c \<noteq> CHR ''T'') (d @ CHR ''T'' # rest) = CHR ''T'' # rest"
    using assms by (induction d) auto
  then show "window_minutes (d @ ''T'' @ rest) = parse_clock (take 5 rest)"
    by (simp add: window_minutes_def)
qed

lemma meeting_window_minutes:
  assumes "CHR ''T'' \<notin> set d" and "parse_clock t = Some n"
  shows "window_date (startDateTime d t) = d \<and> window_date (endDateTime d t) = d
       \<and> window_minutes (startDateTime d t) = Some n
       \<and> window_minutes (endDateTime d t) = Some ((n + 90) mod 1440)"
proof -
  have "take 5 (t @ '':00'') = t"
    using parse_clock_length [OF assms(2)] by simp
  then show ?thesis
    using assms(2) window_of_text [OF assms(1)]
    by (simp add: startDateTime_def endDateTime_def parse_clock_time_string
        parse_time_text_clock [OF assms(2)])
qed

lemma swap_window_sixty_minutes: "swap_end_instant start - start = 60 * 60000"
  by (simp add: swap_end_instant_def swap_sessionDuration_def)

text \<open>
  Claim C9 at a concrete request. A session with a meeting is moved to 23:00 on 2024-02-03.
  The handler passes the start \<open>2024-02-03T23:00:00\<close> and the end \<open>2024-02-03T00:30:00\<close> to
  \<open>createTeamsMeeting\<close>: the clock time of the end is that of 90 minutes later, the date is
  the date of the start, so the end lies 1350 minutes before the start. At 10:15 the end is
  11:45 of the same day.
\<close>

theorem meeting_window_wraps_at_midnight:
  "effective_date ''2024-02-03'' = ''2024-02-03''
   \<and> effective_time ''23:00'' ''09:00'' = ''23:00''
   \<and> startDateTime ''2024-02-03'' ''23:00'' = ''2024-02-03T23:00:00''
   \<and> endDateTime ''2024-02-03'' ''23:00'' = ''2024-02-03T00:30:00''
   \<and> window_date (endDateTime ''2024-02-03'' ''23:00'') = window_date (startDateTime ''2024-02-03'' ''23:00'')
   \<and> window_minutes (startDateTime ''2024-02-03'' ''23:00'') = Some 1380
   \<and> window_minutes (endDateTime ''2024-02-03'' ''23:00'') = Some 30
   \<and> Create_Meeting ''Cohort Basic 6.0 - Graphs'' ''2024-02-03T23:00:00'' ''2024-02-03T00:30:00''
        [''ravi@example.org'', ''asha@example.org'']
        \<in> set (snd (snd (POST_session_update staffed_env meeting_table
              (reschedule_request ''basic6_0_schedule''))))
   \<and> endDateTime ''2024-02-03'' ''10:15'' = ''2024-02-03T11:45:00''"
  by code_simp

text \<open>A time of two characters is read as the full hour.\<close>

lemma meeting_window_two_characters:
  "startDateTime ''2024-02-03'' (effective_time ''12'' ''09:00'') = ''2024-02-03T12:00''
   \<and> endDateTime ''2024-02-03'' (effective_time ''12'' ''09:00'') = ''2024-02-03T13:30:00''"
  by code_simp

end
